theory Spec2Isabelle
  imports Complex_Main
begin

section \<open>JavaScript numbers and values\<close>

text \<open>
  A JavaScript number is modelled as a real number or one of the three non-finite
  values. Finite arithmetic is exact (rounding and overflow of IEEE doubles are not
  modelled, and the two zeros are identified); the non-finite values follow the IEEE
  rules the source relies on: every comparison with \<open>NaN\<close> is false, \<open>Math.acos\<close>
  outside \<open>[-1, 1]\<close> and \<open>Math.sqrt\<close> of a negative number are \<open>NaN\<close>.
\<close>

datatype jsnum = Fin real | NaN | PInf | NInf

text \<open>
  A value read from a database row or a request body, after numeric strings are
  replaced by the number they denote: \<open>null\<close>, \<open>undefined\<close> or a number.
\<close>

datatype jsval = JNull | JUndefined | JNum jsnum

fun isFinite :: "jsnum \<Rightarrow> bool" where
  "isFinite (Fin x) = True"
| "isFinite _ = False"

fun isNaN :: "jsnum \<Rightarrow> bool" where
  "isNaN NaN = True"
| "isNaN _ = False"

fun js_neg :: "jsnum \<Rightarrow> jsnum" where
  "js_neg (Fin x) = Fin (- x)"
| "js_neg NaN = NaN"
| "js_neg PInf = NInf"
| "js_neg NInf = PInf"

fun js_sign_inf :: "bool \<Rightarrow> jsnum" where
  "js_sign_inf True = PInf"
| "js_sign_inf False = NInf"

instantiation jsnum :: "{plus, minus, times, inverse, ord}"
begin

fun plus_jsnum :: "jsnum \<Rightarrow> jsnum \<Rightarrow> jsnum" where
  "plus_jsnum (Fin x) (Fin y) = Fin (x + y)"
| "plus_jsnum NaN _ = NaN"
| "plus_jsnum _ NaN = NaN"
| "plus_jsnum PInf NInf = NaN"
| "plus_jsnum NInf PInf = NaN"
| "plus_jsnum PInf _ = PInf"
| "plus_jsnum _ PInf = PInf"
| "plus_jsnum NInf _ = NInf"
| "plus_jsnum _ NInf = NInf"

definition minus_jsnum :: "jsnum \<Rightarrow> jsnum \<Rightarrow> jsnum" where
  "minus_jsnum a b = a + js_neg b"

fun times_jsnum :: "jsnum \<Rightarrow> jsnum \<Rightarrow> jsnum" where
  "times_jsnum (Fin x) (Fin y) = Fin (x * y)"
| "times_jsnum NaN _ = NaN"
| "times_jsnum _ NaN = NaN"
| "times_jsnum (Fin x) PInf = (if x = 0 then NaN else js_sign_inf (0 < x))"
| "times_jsnum (Fin x) NInf = (if x = 0 then NaN else js_sign_inf (x < 0))"
| "times_jsnum PInf (Fin y) = (if y = 0 then NaN else js_sign_inf (0 < y))"
| "times_jsnum NInf (Fin y) = (if y = 0 then NaN else js_sign_inf (y < 0))"
| "times_jsnum PInf PInf = PInf"
| "times_jsnum NInf NInf = PInf"
| "times_jsnum PInf NInf = NInf"
| "times_jsnum NInf PInf = NInf"

fun divide_jsnum :: "jsnum \<Rightarrow> jsnum \<Rightarrow> jsnum" where
  "divide_jsnum (Fin x) (Fin y) =
     (if y \<noteq> 0 then Fin (x / y)
      else if x = 0 then NaN else js_sign_inf (0 < x))"
| "divide_jsnum NaN _ = NaN"
| "divide_jsnum _ NaN = NaN"
| "divide_jsnum (Fin x) PInf = Fin 0"
| "divide_jsnum (Fin x) NInf = Fin 0"
| "divide_jsnum PInf (Fin y) = js_sign_inf (0 \<le> y)"
| "divide_jsnum NInf (Fin y) = js_sign_inf (y < 0)"
| "divide_jsnum _ _ = NaN"

definition inverse_jsnum :: "jsnum \<Rightarrow> jsnum" where
  "inverse_jsnum a = Fin 1 div a"

fun less_eq_jsnum :: "jsnum \<Rightarrow> jsnum \<Rightarrow> bool" where
  "less_eq_jsnum (Fin x) (Fin y) = (x \<le> y)"
| "less_eq_jsnum NaN _ = False"
| "less_eq_jsnum _ NaN = False"
| "less_eq_jsnum NInf _ = True"
| "less_eq_jsnum _ PInf = True"
| "less_eq_jsnum _ _ = False"

fun less_jsnum :: "jsnum \<Rightarrow> jsnum \<Rightarrow> bool" where
  "less_jsnum (Fin x) (Fin y) = (x < y)"
| "less_jsnum NaN _ = False"
| "less_jsnum _ NaN = False"
| "less_jsnum NInf NInf = False"
| "less_jsnum PInf PInf = False"
| "less_jsnum NInf _ = True"
| "less_jsnum _ PInf = True"
| "less_jsnum _ _ = False"

instance ..

end

fun Math_acos :: "jsnum \<Rightarrow> jsnum" where
  "Math_acos (Fin x) = (if - 1 \<le> x \<and> x \<le> 1 then Fin (arccos x) else NaN)"
| "Math_acos _ = NaN"

fun Math_sqrt :: "jsnum \<Rightarrow> jsnum" where
  "Math_sqrt (Fin x) = (if 0 \<le> x then Fin (sqrt x) else NaN)"
| "Math_sqrt PInf = PInf"
| "Math_sqrt _ = NaN"

definition Math_PI :: jsnum where
  "Math_PI = Fin pi"

definition Math_max :: "jsnum \<Rightarrow> jsnum \<Rightarrow> jsnum" where
  "Math_max a b = (if isNaN a \<or> isNaN b then NaN else if a \<le> b then b else a)"

definition Math_min :: "jsnum \<Rightarrow> jsnum \<Rightarrow> jsnum" where
  "Math_min a b = (if isNaN a \<or> isNaN b then NaN else if a \<le> b then a else b)"

text \<open>\<open>Number(v)\<close>: \<open>null\<close> is 0 and \<open>undefined\<close> is \<open>NaN\<close>.\<close>

fun Number :: "jsval \<Rightarrow> jsnum" where
  "Number JNull = Fin 0"
| "Number JUndefined = NaN"
| "Number (JNum n) = n"

text \<open>\<open>v != null\<close> (loose inequality: false for \<open>null\<close> and for \<open>undefined\<close>).\<close>

fun not_nullish :: "jsval \<Rightarrow> bool" where
  "not_nullish (JNum n) = True"
| "not_nullish _ = False"

text \<open>\<open>Number(v) || 0\<close>: a \<open>NaN\<close> or zero operand is falsy.\<close>

definition Number_or_0 :: "jsval \<Rightarrow> jsnum" where
  "Number_or_0 v = (let n = Number v in if isNaN n \<or> n = Fin 0 then Fin 0 else n)"

text \<open>
  \<open>Number(x.toFixed(1))\<close>: the nearest multiple of one tenth to the exact value of
  \<open>x\<close>, a tie going away from zero; from \<open>10^21\<close> on \<open>toFixed\<close> prints the number
  itself. The code applies it to a double. Where the exact value of the model is a
  decimal tie and the double of the code is not (9000 ms are 0.15 minutes here and
  0.1499... there), the last digit differs by one.
\<close>

fun toFixed1 :: "jsnum \<Rightarrow> jsnum" where
  "toFixed1 (Fin x) =
     (if 10 ^ 21 \<le> \<bar>x\<bar> then Fin x
      else Fin (sgn x * of_int \<lfloor>\<bar>x\<bar> * 10 + 1 / 2\<rfloor> / 10))"
| "toFixed1 n = n"

section \<open>Errors\<close>

text \<open>
  A JavaScript call either returns a value or throws; a result that may throw has the
  type \<open>js_error + 'a\<close>. \<open>RangeError\<close> is what \<open>Date.prototype.toISOString\<close> throws on
  an invalid date. \<open>GeometryError\<close> is the error the specification names; no statement
  of the source throws it.
\<close>

datatype js_error = RangeError | GeometryError

section \<open>Geometry: horizontal cylinder\<close>

text \<open>
  \<open>horizontalCylinderVolume(D, L, h)\<close> of routes/tankCurrent.js (the same function is
  repeated in routes/tankHistoryByTank.js); the result is in cubic metres. This is the
  function in the exact arithmetic of \<open>jsnum\<close>; \<open>horizontalCylinderVolume_b64\<close> below is
  the same body in binary64 arithmetic, for the inputs where rounding decides.
\<close>

definition horizontalCylinderVolume :: "jsnum \<Rightarrow> jsnum \<Rightarrow> jsnum \<Rightarrow> jsnum" where
  "horizontalCylinderVolume D L h =
     (let R = D / Fin 2 in
      if h \<le> Fin 0 then Fin 0
      else if h \<ge> D then Math_PI * R * R * L
      else
        let term1 = R * R * Math_acos ((R - h) / R);
            term2 = (R - h) * Math_sqrt (Fin 2 * R * h - h * h);
            area = term1 - term2
        in L * area)"

text \<open>\<open>horizontalCylinderVolumeLitres(D, L, h)\<close> of routes/updateData.js, in litres.\<close>

definition horizontalCylinderVolumeLitres :: "jsval \<Rightarrow> jsval \<Rightarrow> jsval \<Rightarrow> jsnum" where
  "horizontalCylinderVolumeLitres D L h =
     (let Dnum = Number D; Lnum = Number L; hnum = Number h in
      if \<not> isFinite Dnum \<or> \<not> isFinite Lnum \<or> \<not> isFinite hnum then Fin 0
      else if Dnum \<le> Fin 0 \<or> Lnum \<le> Fin 0 then Fin 0
      else if hnum \<le> Fin 0 then Fin 0
      else
        let r = Dnum / Fin 2;
            hnum1 = (if hnum < Fin 0 then Fin 0 else hnum);
            hnum2 = (if hnum1 > Fin 2 * r then Fin 2 * r else hnum1);
            areaSegment =
              r * r * Math_acos ((r - hnum2) / r)
              - (r - hnum2) * Math_sqrt (Fin 2 * r * hnum2 - hnum2 * hnum2);
            volumeM3 = areaSegment * Lnum
        in volumeM3 * Fin 1000)"

section \<open>Status from safe limits (routes/tankCurrent.js)\<close>

text \<open>
  \<open>statusFromLimits(actualL, minL, maxL)\<close>; \<open>None\<close> is \<open>null\<close>. The result is the pair
  \<open>(tank_status, tank_alert_message)\<close>.
\<close>

definition statusFromLimits ::
  "jsnum option \<Rightarrow> jsnum option \<Rightarrow> jsnum option \<Rightarrow> string \<times> string" where
  "statusFromLimits actualL minL maxL =
     (case actualL of
        None \<Rightarrow> (''Unknown'', ''No reading'')
      | Some a \<Rightarrow>
          if minL = None \<and> maxL = None then (''OK'', ''Normal'')
          else if maxL \<noteq> None \<and> a \<ge> the maxL then (''Warning'', ''High level'')
          else if minL \<noteq> None \<and> a \<le> the minL then (''Warning'', ''Low level'')
          else (''OK'', ''Normal''))"

section \<open>One tank of the current view (routes/tankCurrent.js)\<close>

text \<open>
  The columns of Tank_Parameters, and a joined row of the current-view query. The
  column \<open>length\<close> is named \<open>length_col\<close> here. \<open>date_time\<close> is \<open>None\<close> when the column is
  falsy and otherwise the epoch milliseconds of \<open>new Date(row.date_time)\<close>, \<open>NaN\<close> for an
  invalid date.
\<close>

record tank_parameters =
  diameter_breadth :: jsval
  length_col :: jsval
  tank_volume :: jsval
  upper_safe_limit_pct :: jsval
  lower_safe_limit_pct :: jsval

record tank_row = tank_parameters +
  tank_no :: string
  ultra_height :: jsval
  date_time :: "jsnum option"

text \<open>\<open>v ?? d\<close>\<close>

fun nullish_or :: "jsval \<Rightarrow> jsval \<Rightarrow> jsval" where
  "nullish_or (JNum n) d = JNum n"
| "nullish_or _ d = d"

text \<open>\<open>v != null ? Number(v) : null\<close>\<close>

definition Number_or_null :: "jsval \<Rightarrow> jsnum option" where
  "Number_or_null v = (if not_nullish v then Some (Number v) else None)"

text \<open>The local \<open>depth\<close> of \<open>buildTankResponseRow\<close>: water depth from the bottom.\<close>

definition row_depth :: "string \<Rightarrow> jsnum \<Rightarrow> jsnum option \<Rightarrow> jsnum option" where
  "row_depth tankNo D sensor =
     (case sensor of
        None \<Rightarrow> None
      | Some s \<Rightarrow>
          if tankNo = ''FIRE-TANK'' then
            let MAX_HEIGHT_M = Fin 17.9;
                depth0 = MAX_HEIGHT_M - s;
                depth1 = (if depth0 < Fin 0 then Fin 0 else depth0);
                depth2 = (if depth1 > MAX_HEIGHT_M then MAX_HEIGHT_M else depth1)
            in Some depth2
          else if D > Fin 0 then
            let depth0 = D - s;
                depth1 = (if depth0 < Fin 0 then Fin 0 else depth0);
                depth2 = (if depth1 > D then D else depth1)
            in Some depth2
          else None)"

text \<open>The local \<open>rawVolumeL\<close> of \<open>buildTankResponseRow\<close>: raw volume of the last reading.\<close>

definition row_rawVolumeL :: "string \<Rightarrow> jsnum \<Rightarrow> jsnum \<Rightarrow> jsnum option \<Rightarrow> jsnum option" where
  "row_rawVolumeL tankNo D L depth =
     (case depth of
        None \<Rightarrow> None
      | Some d \<Rightarrow>
          if tankNo = ''FIRE-TANK'' then
            let WIDTH_M = Fin 8.9;
                LENGTH_M = Fin 5.15;
                volM3 = WIDTH_M * LENGTH_M * d
            in Some (volM3 * Fin 1000)
          else if D > Fin 0 \<and> L > Fin 0 then
            let volM3 = horizontalCylinderVolume D L d
            in Some (volM3 * Fin 1000)
          else None)"

text \<open>
  The 30-minute rule: \<open>(minutesSinceLast, isStale)\<close> from the time of the last reading
  and the clock, both in epoch milliseconds.
\<close>

definition row_staleness :: "real \<Rightarrow> jsnum option \<Rightarrow> jsnum option \<times> bool" where
  "row_staleness now lastTime =
     (case lastTime of
        None \<Rightarrow> (None, True)
      | Some t \<Rightarrow>
          if \<not> isNaN t then
            let minutesSinceLast = (Fin now - t) / Fin (1000 * 60)
            in (Some minutesSinceLast, minutesSinceLast > Fin 30)
          else (None, True))"

text \<open>The local \<open>fillPct\<close> of \<open>buildTankResponseRow\<close>.\<close>

definition row_fillPct :: "jsnum option \<Rightarrow> jsnum option \<Rightarrow> jsnum option" where
  "row_fillPct capacityL effectiveVolumeL =
     (if capacityL \<noteq> None \<and> the capacityL > Fin 0 \<and> effectiveVolumeL \<noteq> None
      then Some (toFixed1 ((the effectiveVolumeL / the capacityL) * Fin 100))
      else None)"

text \<open>
  \<open>lastTime ? lastTime.toISOString() : null\<close>: the ISO text is represented by the
  instant it denotes. \<open>toISOString\<close> throws a \<open>RangeError\<close> when the date is invalid,
  and an invalid \<open>Date\<close> object is truthy.
\<close>

fun last_updated_of :: "jsnum option \<Rightarrow> js_error + real option" where
  "last_updated_of None = Inr None"
| "last_updated_of (Some (Fin t)) = Inr (Some t)"
| "last_updated_of (Some _) = Inl RangeError"

text \<open>
  The response object of one tank. \<open>device_id\<close>, \<open>tank_no\<close> and \<open>location\<close> are copies
  of the row and are left out; \<open>raw_volume_l\<close> is \<open>raw_reading.volume_l\<close> and \<open>volume_l\<close> is
  \<open>effective.volume_l\<close>.
\<close>

record tank_response =
  last_updated :: "real option"
  minutes_since_last :: "jsnum option"
  stale :: bool
  diameter_m :: jsnum
  length_m :: jsnum
  capacity_l :: "jsnum option"
  ultra_height_m :: "jsnum option"
  water_depth_m :: "jsnum option"
  raw_volume_l :: "jsnum option"
  volume_l :: "jsnum option"
  fill_percentage :: "jsnum option"
  min_l :: "jsnum option"
  max_l :: "jsnum option"
  tank_status :: string
  tank_alert_message :: string

text \<open>
  \<open>buildTankResponseRow(row)\<close>; the clock \<open>new Date()\<close> the function reads is the
  argument \<open>now\<close> (epoch milliseconds). The only call that can throw is
  \<open>toISOString\<close> in the object returned; the function then returns nothing.
\<close>

definition buildTankResponseRow :: "real \<Rightarrow> tank_row \<Rightarrow> js_error + tank_response" where
  "buildTankResponseRow now row =
     (let lastTime = date_time row;
          (minutesSinceLast, isStale) = row_staleness now lastTime;
          tankNo = tank_no row;
          D = Number (nullish_or (diameter_breadth row) (JNum (Fin 0)));
          L = Number (nullish_or (length_col row) (JNum (Fin 0)));
          capacityL = Number_or_null (tank_volume row);
          sensor = Number_or_null (ultra_height row);
          depth = row_depth tankNo D sensor;
          rawVolumeL = row_rawVolumeL tankNo D L depth;
          maxL = Number_or_null (upper_safe_limit_pct row);
          minL = Number_or_null (lower_safe_limit_pct row);
          (effectiveVolumeL, status, alert) =
            (if isStale then (Some (Fin 0), ''Inactive'', ''No reading in last 30 minutes'')
             else let s = statusFromLimits rawVolumeL minL maxL
                  in (rawVolumeL, fst s, snd s));
          fillPct = row_fillPct capacityL effectiveVolumeL
      in case last_updated_of lastTime of
           Inl e \<Rightarrow> Inl e
         | Inr lastUpdated \<Rightarrow>
             Inr \<lparr> last_updated = lastUpdated,
                   minutes_since_last = map_option toFixed1 minutesSinceLast,
                   stale = isStale,
                   diameter_m = D,
                   length_m = L,
                   capacity_l = capacityL,
                   ultra_height_m = sensor,
                   water_depth_m = depth,
                   raw_volume_l = map_option toFixed1 rawVolumeL,
                   volume_l = map_option toFixed1 effectiveVolumeL,
                   fill_percentage = fillPct,
                   min_l = minL,
                   max_l = maxL,
                   tank_status = status,
                   tank_alert_message = alert \<rparr>)"

section \<open>One point of the history view (routes/tankHistoryByTank.js)\<close>

record history_point =
  h_ultra_height_m :: "jsnum option"
  h_water_depth_m :: "jsnum option"
  tank_volume_l :: jsnum
  water_volume_l :: "jsnum option"
  volume_percentage :: "jsnum option"

text \<open>
  The function mapped over the rows of the history query; the identifying columns are
  copied and left out.
\<close>

definition historyPoint :: "tank_row \<Rightarrow> history_point" where
  "historyPoint r =
     (let isFireTank = (tank_no r = ''FIRE-TANK'');
          sensor = Number_or_null (ultra_height r);
          tankVolumeL = (if not_nullish (tank_volume r) then Number (tank_volume r) else Fin 0);
          (volumeL1, volumePct1, depth1) =
            (if isFireTank \<and> sensor \<noteq> None then
               let WIDTH_M = Fin 8.9;
                   LENGTH_M = Fin 5.15;
                   MAX_HEIGHT_M = Fin 17.9;
                   w0 = MAX_HEIGHT_M - the sensor;
                   w1 = (if w0 < Fin 0 then Fin 0 else w0);
                   waterHeightM = (if w1 > MAX_HEIGHT_M then MAX_HEIGHT_M else w1);
                   volumeM3 = WIDTH_M * LENGTH_M * waterHeightM;
                   volumeL = volumeM3 * Fin 1000
               in (Some volumeL,
                   (if tankVolumeL > Fin 0 then Some ((volumeL / tankVolumeL) * Fin 100) else None),
                   Some waterHeightM)
             else (None, None, None));
          (volumeL2, volumePct2, depth2) =
            (if \<not> isFireTank then
               let D = Number (nullish_or (diameter_breadth r) (JNum (Fin 0)));
                   L = Number (nullish_or (length_col r) (JNum (Fin 0)))
               in if sensor \<noteq> None \<and> D > Fin 0 \<and> L > Fin 0 then
                    let rawDepth = D - the sensor;
                        depth = Math_max (Fin 0) (Math_min rawDepth D);
                        volM3 = horizontalCylinderVolume D L depth;
                        volumeL = volM3 * Fin 1000
                    in (Some volumeL,
                        (if tankVolumeL > Fin 0 then Some ((volumeL / tankVolumeL) * Fin 100)
                         else volumePct1),
                        Some depth)
                  else (volumeL1, volumePct1, depth1)
             else (volumeL1, volumePct1, depth1))
      in \<lparr> h_ultra_height_m = sensor,
           h_water_depth_m = depth2,
           tank_volume_l = tankVolumeL,
           water_volume_l = map_option toFixed1 volumeL2,
           volume_percentage = map_option toFixed1 volumePct2 \<rparr>)"

section \<open>The update-data handler (routes/updateData.js)\<close>

text \<open>
  A string of the request body is the list of its UTF-16 code units; \<open>js_str\<close> gives
  the code units of an ASCII literal.
\<close>

type_synonym js_string = "nat list"

definition js_str :: "string \<Rightarrow> js_string" where
  "js_str s = map of_char s"

text \<open>
  The fields of the request body the computation reads; \<open>tank_no = None\<close> is a body
  without the field. The row inserted into \<open>tank_status\<close> is the result; the location
  lookup and the insert itself are database traffic and are left out.
\<close>

record update_request =
  req_tank_no :: "js_string option"
  req_ultra_height :: jsval

record tank_status_insert =
  currentLevel :: jsnum
  fillPercentage :: jsnum
  flowStatus :: string
  ins_tank_status :: string
  ins_tank_alert_message :: string

datatype update_error = MISSING_FIELDS

text \<open>
  \<open>String.prototype.trim\<close> removes the white space and line terminator code points of
  ECMAScript from both ends: TAB, LF, VT, FF, CR, SP, NBSP, U+1680, U+2000 to U+200A,
  U+2028, U+2029, U+202F, U+205F, U+3000 and U+FEFF.
\<close>

definition is_space :: "nat \<Rightarrow> bool" where
  "is_space c =
     (c \<in> set [0x09, 0x0A, 0x0B, 0x0C, 0x0D, 0x20, 0xA0, 0x1680, 0x2028, 0x2029, 0x202F,
                0x205F, 0x3000, 0xFEFF]
      \<or> (0x2000 \<le> c \<and> c \<le> 0x200A))"

definition trim :: "js_string \<Rightarrow> js_string" where
  "trim s = rev (dropWhile is_space (rev (dropWhile is_space s)))"

text \<open>
  Step 2 of the handler, "Compute depth, volume and fill%": the pair
  \<open>(currentLevelLitres, fillPercentage)\<close>.
\<close>

definition updateData_level ::
  "js_string \<Rightarrow> jsval \<Rightarrow> jsval \<Rightarrow> jsnum \<Rightarrow> jsnum \<Rightarrow> jsnum \<times> jsnum" where
  "updateData_level tankNoTrimmed D L capacityLitres ultraH =
     (if tankNoTrimmed = js_str ''FIRE-TANK'' \<and> isFinite ultraH then
        let WIDTH_M = Fin 8.9;
            LENGTH_M = Fin 5.15;
            MAX_HEIGHT_M = Fin 17.9;
            w0 = MAX_HEIGHT_M - ultraH;
            w1 = (if w0 < Fin 0 then Fin 0 else w0);
            waterHeightM = (if w1 > MAX_HEIGHT_M then MAX_HEIGHT_M else w1);
            volumeM3 = WIDTH_M * LENGTH_M * waterHeightM;
            currentLevelLitres = volumeM3 * Fin 1000
        in (currentLevelLitres,
            if capacityLitres > Fin 0 then (currentLevelLitres / capacityLitres) * Fin 100
            else Fin 0)
      else if isFinite ultraH \<and> not_nullish D \<and> not_nullish L then
        let depth = Math_max (Fin 0) (Number D - ultraH);
            currentLevelLitres = horizontalCylinderVolumeLitres D L (JNum depth)
        in (currentLevelLitres,
            if capacityLitres > Fin 0 then (currentLevelLitres / capacityLitres) * Fin 100
            else Fin 0)
      else (Fin 0, Fin 0))"

text \<open>
  Step 3 of the handler, "Decide status and alert using safe limits": the triple
  \<open>(flowStatus, tankStatus, tankAlertMessage)\<close>.
\<close>

definition updateData_status ::
  "jsnum \<Rightarrow> jsnum \<Rightarrow> jsnum \<Rightarrow> jsnum \<Rightarrow> jsnum \<Rightarrow> string \<times> string \<times> string" where
  "updateData_status ultraH capacityLitres upperSafeLitres lowerSafeLitres currentLevelLitres =
     (if \<not> isFinite ultraH then (''Inactive'', ''No Data'', ''No valid level'')
      else if capacityLitres > Fin 0 then
        (if upperSafeLitres > Fin 0 \<and> currentLevelLitres \<ge> upperSafeLitres
         then (''Normal'', ''Warning'', ''High level'')
         else if lowerSafeLitres > Fin 0 \<and> currentLevelLitres \<le> lowerSafeLitres
         then (''Normal'', ''Warning'', ''Low level'')
         else (''Normal'', ''OK'', ''Normal''))
      else
        (if ultraH \<le> Fin 0 then (''Normal'', ''Warning'', ''Low level'')
         else (''Normal'', ''OK'', ''Normal'')))"

text \<open>
  The handler from the request body and the row of Tank_Parameters found for the tank
  (\<open>None\<close>: no row, every parameter is then \<open>undefined\<close>).
\<close>

definition updateData ::
  "update_request \<Rightarrow> tank_parameters option \<Rightarrow> update_error + tank_status_insert" where
  "updateData req paramRow =
     (case req_tank_no req of
        None \<Rightarrow> Inl MISSING_FIELDS
      | Some tankNo \<Rightarrow>
        if tankNo = [] then Inl MISSING_FIELDS
        else
          let tankNoTrimmed = trim tankNo;
              param = (\<lambda>f. case paramRow of None \<Rightarrow> JUndefined | Some p \<Rightarrow> f p);
              D = param diameter_breadth;
              L = param length_col;
              capacityLitres = Number_or_0 (param tank_volume);
              upperSafeLitres = Number_or_0 (param upper_safe_limit_pct);
              lowerSafeLitres = Number_or_0 (param lower_safe_limit_pct);
              ultraH = Number (req_ultra_height req);
              (currentLevelLitres, fillPercentage) =
                updateData_level tankNoTrimmed D L capacityLitres ultraH;
              (flow, status, alert) =
                updateData_status ultraH capacityLitres upperSafeLitres lowerSafeLitres
                  currentLevelLitres
          in Inr \<lparr> currentLevel = currentLevelLitres,
                   fillPercentage = (if isFinite fillPercentage then fillPercentage else Fin 0),
                   flowStatus = flow,
                   ins_tank_status = status,
                   ins_tank_alert_message = alert \<rparr>)"

section \<open>The geometry functions with the outcome of the call\<close>



section \<open>The cubic-metre function in binary64 arithmetic\<close>

text \<open>
  The code computes in IEEE binary64. \<open>b64\<close> rounds a real to the nearest double, a tie
  going to the even significand, for magnitudes in the normal range (no overflow, no
  subnormal numbers). Every arithmetic operation and \<open>Math.sqrt\<close> return the rounded
  exact result; \<open>Math.PI\<close> is the double nearest to \<open>pi\<close>. \<open>Math.acos\<close> is only
  approximated by an implementation and is a parameter of the function.
\<close>

definition pow2 :: "int \<Rightarrow> real" where
  "pow2 e = (if 0 \<le> e then 2 ^ nat e else 1 / 2 ^ nat (- e))"

definition round_even :: "real \<Rightarrow> int" where
  "round_even y =
     (let f = \<lfloor>y\<rfloor>; r = y - of_int f in
      if r < 1 / 2 then f
      else if 1 / 2 < r then f + 1
      else if even f then f else f + 1)"

definition b64 :: "real \<Rightarrow> real" where
  "b64 x =
     (if x = 0 then 0
      else let e = \<lfloor>log 2 \<bar>x\<bar>\<rfloor> - 52
           in of_int (round_even (x / pow2 e)) * pow2 e)"

text \<open>
  \<open>horizontalCylinderVolume(D, L, h)\<close> of routes/tankCurrent.js on finite doubles, each
  operation rounded, in the order JavaScript evaluates them.
\<close>

definition horizontalCylinderVolume_b64 ::
  "(real \<Rightarrow> real) \<Rightarrow> real \<Rightarrow> real \<Rightarrow> real \<Rightarrow> real" where
  "horizontalCylinderVolume_b64 acos_impl D L h =
     (let R = b64 (D / 2) in
      if h \<le> 0 then 0
      else if h \<ge> D then b64 (b64 (b64 (b64 pi * R) * R) * L)
      else
        let term1 = b64 (b64 (R * R) * acos_impl (b64 (b64 (R - h) / R)));
            term2 = b64 (b64 (R - h) * b64 (sqrt (b64 (b64 (b64 (2 * R) * h) - b64 (h * h)))));
            area = b64 (term1 - term2)
        in b64 (L * area))"

section \<open>The specification's functions\<close>

text \<open>\<open>clamp(x, lo, hi)\<close> as the specification uses it.\<close>

definition clamp :: "real \<Rightarrow> real \<Rightarrow> real \<Rightarrow> real" where
  "clamp x lo hi = max lo (min x hi)"

text \<open>
  \<open>cylinderVolumeLiters(D, L, h)\<close> in the specification's words: the domain guard, then
  the empty tank, the full tank and the circular segment.
\<close>

definition cylinderVolumeLiters :: "real \<Rightarrow> real \<Rightarrow> real \<Rightarrow> real" where
  "cylinderVolumeLiters D L h =
     (let R = D / 2 in
      if D \<le> 0 \<or> L \<le> 0 then 0
      else if h \<le> 0 then 0
      else if h \<ge> D then pi * R\<^sup>2 * L * 1000
      else L * (R\<^sup>2 * arccos ((R - h) / R) - (R - h) * sqrt (2 * R * h - h\<^sup>2)) * 1000)"

section \<open>Example inputs\<close>

text \<open>
  A cylindrical tank of diameter 2 m and length 5 m with a capacity of 15000 litres and
  no limits, whose last reading (distance 1 m) was taken at time 0.
\<close>

definition scenario_row :: tank_row where
  "scenario_row = \<lparr> diameter_breadth = JNum (Fin 2), length_col = JNum (Fin 5),
     tank_volume = JNum (Fin 15000), upper_safe_limit_pct = JNull, lower_safe_limit_pct = JNull,
     tank_no = ''T-01'', ultra_height = JNum (Fin 1), date_time = Some (Fin 0) \<rparr>"

text \<open>
  An update-data request for the rectangular tank at a distance of 16.9 m (a water
  column of 1 m, 45835 litres), with a capacity of 91670 litres and the limits 40000 and
  10000.
\<close>

definition scenario_request :: update_request where
  "scenario_request =
     \<lparr> req_tank_no = Some (js_str ''FIRE-TANK''), req_ultra_height = JNum (Fin 16.9) \<rparr>"

definition scenario_params :: tank_parameters where
  "scenario_params = \<lparr> diameter_breadth = JNull, length_col = JNull,
     tank_volume = JNum (Fin 91670), upper_safe_limit_pct = JNum (Fin 40000),
     lower_safe_limit_pct = JNum (Fin 10000) \<rparr>"

section \<open>Status classification at and between the limits\<close>

text \<open>
  C10. When a level satisfies both alert conditions (at or above the upper limit and at
  or below the lower limit), the classifier answers Warning with "High level": the high
  check comes first. This holds for \<open>statusFromLimits\<close> and for the limit branch of the
  update-data handler (finite distance, known capacity, positive limits).
\<close>

theorem high_level_priority:
  "(a \<ge> mx \<and> a \<le> mn \<longrightarrow>
      statusFromLimits (Some a) (Some mn) (Some mx) = (''Warning'', ''High level''))
   \<and> (isFinite u \<and> cap > Fin 0 \<and> up > Fin 0 \<and> lo > Fin 0 \<and> lvl \<ge> up \<and> lvl \<le> lo \<longrightarrow>
      updateData_status u cap up lo lvl = (''Normal'', ''Warning'', ''High level''))"
  by (simp add: statusFromLimits_def updateData_status_def)

theorem high_level_priority_witness:
  "Fin 50 \<ge> Fin 40 \<and> Fin 50 \<le> Fin 60
   \<and> statusFromLimits (Some (Fin 50)) (Some (Fin 60)) (Some (Fin 40)) = (''Warning'', ''High level'')
   \<and> isFinite (Fin 1) \<and> Fin 100 > Fin 0 \<and> Fin 40 > Fin 0 \<and> Fin 60 > Fin 0
   \<and> updateData_status (Fin 1) (Fin 100) (Fin 40) (Fin 60) (Fin 50)
       = (''Normal'', ''Warning'', ''High level'')"
  using high_level_priority
    [of "Fin 40" "Fin 50" "Fin 60" "Fin 1" "Fin 100" "Fin 40" "Fin 60" "Fin 50"]
  by simp

text \<open>
  C4, as stated, fails: with the upper limit 10 and the lower limit 20, the level 20 is
  exactly the lower limit and the alert is "High level", not "Low level".
\<close>

theorem boundary_lower_counterexample:
  "statusFromLimits (Some (Fin 20)) (Some (Fin 20)) (Some (Fin 10)) = (''Warning'', ''High level'')
   \<and> snd (statusFromLimits (Some (Fin 20)) (Some (Fin 20)) (Some (Fin 10))) \<noteq> ''Low level''"
  by (simp add: statusFromLimits_def)

text \<open>
  C4, amended. A level exactly equal to the upper limit is Warning with "High level". A
  level exactly equal to the lower limit is Warning, never OK; its alert is "Low level"
  when the level is not at or above a configured upper limit. In the update-data handler
  the same holds in its limit branch: finite distance, known capacity, and a positive
  limit (a limit of 0 counts there as not configured).
\<close>

theorem boundary_inclusive:
  "statusFromLimits (Some (Fin a)) minL (Some (Fin a)) = (''Warning'', ''High level'')
   \<and> fst (statusFromLimits (Some (Fin a)) (Some (Fin a)) maxL) = ''Warning''
   \<and> (maxL = None \<or> (\<exists>m. maxL = Some m \<and> \<not> m \<le> Fin a) \<longrightarrow>
        statusFromLimits (Some (Fin a)) (Some (Fin a)) maxL = (''Warning'', ''Low level''))
   \<and> (isFinite u \<and> cap > Fin 0 \<and> 0 < a \<longrightarrow>
        updateData_status u cap (Fin a) lo (Fin a) = (''Normal'', ''Warning'', ''High level'')
        \<and> fst (snd (updateData_status u cap up (Fin a) (Fin a))) = ''Warning''
        \<and> (\<not> (up > Fin 0 \<and> up \<le> Fin a) \<longrightarrow>
             updateData_status u cap up (Fin a) (Fin a) = (''Normal'', ''Warning'', ''Low level'')))"
  by (auto simp add: statusFromLimits_def updateData_status_def)

theorem boundary_inclusive_witness:
  "statusFromLimits (Some (Fin 20)) (Some (Fin 20)) (Some (Fin 80)) = (''Warning'', ''Low level'')
   \<and> \<not> Fin 80 \<le> Fin 20
   \<and> statusFromLimits (Some (Fin 80)) (Some (Fin 20)) (Some (Fin 80)) = (''Warning'', ''High level'')
   \<and> isFinite (Fin 1) \<and> Fin 100 > Fin 0 \<and> (0::real) < 20
   \<and> \<not> (Fin 80 > Fin 0 \<and> Fin 80 \<le> Fin 20)
   \<and> updateData_status (Fin 1) (Fin 100) (Fin 80) (Fin 20) (Fin 20)
       = (''Normal'', ''Warning'', ''Low level'')"
  using boundary_inclusive [of 20 "Some (Fin 20)" "Some (Fin 80)" "Fin 1" "Fin 100" "Fin 20" "Fin 80"]
    boundary_inclusive [of 80 "Some (Fin 20)" "Some (Fin 80)" "Fin 1" "Fin 100" "Fin 20" "Fin 80"]
  by simp

section \<open>The response of the current view\<close>

text \<open>
  \<open>buildTankResponseRow\<close> returns the response object when the time of the last reading
  is absent or a valid date, and throws \<open>RangeError\<close> when it is an invalid date.
\<close>

lemma last_updated_valid:
  "lt = None \<or> (\<exists>t. lt = Some (Fin t)) \<Longrightarrow> \<exists>u. last_updated_of lt = Inr u"
  by auto

lemma buildTankResponseRow_Inr:
  fixes now :: real and row :: tank_row
  defines "D \<equiv> Number (nullish_or (diameter_breadth row) (JNum (Fin 0)))"
    and "L \<equiv> Number (nullish_or (length_col row) (JNum (Fin 0)))"
    and "cap \<equiv> Number_or_null (tank_volume row)"
    and "sensor \<equiv> Number_or_null (ultra_height row)"
    and "st \<equiv> row_staleness now (date_time row)"
  defines "depth \<equiv> row_depth (tank_no row) D sensor"
  defines "raw \<equiv> row_rawVolumeL (tank_no row) D L depth"
  defines "eff \<equiv> (if snd st then Some (Fin 0) else raw)"
    and "sm \<equiv> statusFromLimits raw (Number_or_null (lower_safe_limit_pct row))
                (Number_or_null (upper_safe_limit_pct row))"
  assumes u: "last_updated_of (date_time row) = Inr u"
  shows "buildTankResponseRow now row =
    Inr \<lparr> last_updated = u,
          minutes_since_last = map_option toFixed1 (fst st),
          stale = snd st,
          diameter_m = D,
          length_m = L,
          capacity_l = cap,
          ultra_height_m = sensor,
          water_depth_m = depth,
          raw_volume_l = map_option toFixed1 raw,
          volume_l = map_option toFixed1 eff,
          fill_percentage = row_fillPct cap eff,
          min_l = Number_or_null (lower_safe_limit_pct row),
          max_l = Number_or_null (upper_safe_limit_pct row),
          tank_status = (if snd st then ''Inactive'' else fst sm),
          tank_alert_message = (if snd st then ''No reading in last 30 minutes'' else snd sm) \<rparr>"
  unfolding D_def L_def cap_def sensor_def st_def depth_def raw_def eff_def sm_def
  using u by (simp add: buildTankResponseRow_def Let_def split_beta)


lemma fire_row_depth:
  "row_depth ''FIRE-TANK'' D (Some (Fin s)) = Some (Fin (clamp (17.9 - s) 0 17.9))"
  by (simp add: row_depth_def clamp_def minus_jsnum_def Let_def)

lemma fire_row_volume:
  "row_rawVolumeL ''FIRE-TANK'' D L (Some (Fin d)) = Some (Fin (8.9 * 5.15 * d * 1000))"
  by (simp add: row_rawVolumeL_def Let_def)

lemma row_depth_cylinder:
  "tn \<noteq> ''FIRE-TANK'' \<Longrightarrow> 0 < d \<Longrightarrow>
   row_depth tn (Fin d) (Some (Fin s)) = Some (Fin (clamp (d - s) 0 d))"
  by (simp add: row_depth_def clamp_def minus_jsnum_def Let_def)


lemma row_staleness_fresh:
  "lt = Some (Fin t) \<Longrightarrow> now - t \<le> 30 * 60 * 1000 \<Longrightarrow> \<not> snd (row_staleness now lt)"
  by (auto simp add: row_staleness_def minus_jsnum_def Let_def)





section \<open>The cylinder functions against the specification\<close>

text \<open>
  On finite inputs the litre function of the update-data handler is the specification's
  function, and so is the cubic-metre function of the views (times 1000) for a positive
  diameter and length, the only arguments its callers pass.
\<close>

lemma segment_args:
  assumes "0 < (D::real)" "0 < h" "h \<le> D"
  shows "- 1 \<le> (D / 2 - h) / (D / 2)" "(D / 2 - h) / (D / 2) \<le> 1"
    "0 \<le> 2 * (D / 2) * h - h * h"
proof -
  show "- 1 \<le> (D / 2 - h) / (D / 2)" using assms by (simp add: field_simps)
  show "(D / 2 - h) / (D / 2) \<le> 1" using assms by (simp add: field_simps)
  have "0 \<le> h * (D - h)" using assms by simp
  then show "0 \<le> 2 * (D / 2) * h - h * h" by (simp add: algebra_simps)
qed

lemma litres_eq_spec:
  "horizontalCylinderVolumeLitres (JNum (Fin D)) (JNum (Fin L)) (JNum (Fin h))
     = Fin (cylinderVolumeLiters D L h)"
proof -
  consider "D \<le> 0 \<or> L \<le> 0" | "0 < D" "0 < L" "h \<le> 0" | "0 < D" "0 < L" "0 < h" "D \<le> h"
    | "0 < D" "0 < L" "0 < h" "h < D"
    by linarith
  then show ?thesis
  proof cases
    case 1
    then show ?thesis
      by (auto simp add: horizontalCylinderVolumeLitres_def cylinderVolumeLiters_def Let_def)
  next
    case 2
    then show ?thesis
      by (simp add: horizontalCylinderVolumeLitres_def cylinderVolumeLiters_def Let_def)
  next
    case 3
    then show ?thesis
      by (auto simp add: horizontalCylinderVolumeLitres_def cylinderVolumeLiters_def Let_def
          minus_jsnum_def power2_eq_square)
  next
    case 4
    then show ?thesis
      using segment_args [of D h]
      by (simp add: horizontalCylinderVolumeLitres_def cylinderVolumeLiters_def Let_def
          minus_jsnum_def power2_eq_square algebra_simps)
  qed
qed

lemma cubic_metres_value:
  assumes "0 < D" "0 < L"
  shows "horizontalCylinderVolume (Fin D) (Fin L) (Fin h) = Fin (cylinderVolumeLiters D L h / 1000)"
proof -
  consider "h \<le> 0" | "0 < h" "D \<le> h" | "0 < h" "h < D"
    by linarith
  then show ?thesis
  proof cases
    case 1
    then show ?thesis using assms
      by (simp add: horizontalCylinderVolume_def cylinderVolumeLiters_def Let_def)
  next
    case 2
    then show ?thesis using assms
      by (simp add: horizontalCylinderVolume_def cylinderVolumeLiters_def Let_def Math_PI_def
          power2_eq_square)
  next
    case 3
    then show ?thesis
      using assms segment_args [of D h]
      by (simp add: horizontalCylinderVolume_def cylinderVolumeLiters_def Let_def
          minus_jsnum_def power2_eq_square algebra_simps)
  qed
qed


subsection \<open>Bounds on \<open>pi\<close>\<close>

text \<open>
  The sine series up to the seventh power with its remainder, evaluated next to
  \<open>pi / 6\<close>, encloses \<open>pi\<close> between 3.14158 and 3.14162.
\<close>

lemma sum_lessThan_9:
  "(\<Sum>m<(9::nat). f m) = (f 0 + f 1 + f 2 + f 3 + f 4 + f 5 + f 6 + f 7 + f 8 :: real)"
  by (simp add: eval_nat_numeral)

lemma sin_taylor9:
  assumes "0 < (x::real)"
  shows "\<bar>sin x - (x - x ^ 3 / 6 + x ^ 5 / 120 - x ^ 7 / 5040)\<bar> \<le> x ^ 9 / 362880"
proof -
  obtain t where
    e: "sin x = (\<Sum>m<9. sin_coeff m * x ^ m) + (sin (t + 1 / 2 * real 9 * pi) / fact 9) * x ^ 9"
    using Maclaurin_sin_expansion3 [of 9 x] assms by auto
  have c: "sin_coeff 0 = 0" "sin_coeff 1 = 1" "sin_coeff 2 = 0" "sin_coeff 3 = - 1 / 6"
    "sin_coeff 4 = 0" "sin_coeff 5 = 1 / 120" "sin_coeff 6 = 0" "sin_coeff 7 = - 1 / 5040"
    "sin_coeff 8 = 0"
    by (simp_all add: sin_coeff_def fact_numeral)
  have s: "(\<Sum>m<9. sin_coeff m * x ^ m) = x - x ^ 3 / 6 + x ^ 5 / 120 - x ^ 7 / 5040"
    unfolding sum_lessThan_9 c by simp
  have f: "(fact 9 :: real) = 362880"
    by (simp add: fact_numeral)
  have "\<bar>sin x - (x - x ^ 3 / 6 + x ^ 5 / 120 - x ^ 7 / 5040)\<bar>
      = \<bar>sin (t + 1 / 2 * real 9 * pi)\<bar> * (x ^ 9 / 362880)"
    using assms unfolding e s f by (simp add: abs_mult)
  also have "\<dots> \<le> 1 * (x ^ 9 / 362880)"
    using assms by (intro mult_right_mono) auto
  finally show ?thesis by simp
qed

lemma pi_lower: "3.14158 < pi"
proof -
  let ?x = "157079 / 300000 :: real"
  have "sin ?x \<le> (?x - ?x ^ 3 / 6 + ?x ^ 5 / 120 - ?x ^ 7 / 5040) + ?x ^ 9 / 362880"
    using sin_taylor9 [of ?x] by (simp only: abs_le_iff) linarith
  also have "\<dots> < 1 / 2" by (simp add: field_simps)
  finally have "sin ?x < sin (pi / 6)" by (simp add: sin_30)
  moreover have "?x \<le> pi / 2" using pi_ge_two by simp
  moreover have "- (pi / 2) \<le> ?x" using pi_ge_two by simp
  ultimately have "?x < pi / 6"
    using sin_mono_less_eq [of ?x "pi / 6"] pi_ge_two by simp
  then show ?thesis by simp
qed

lemma pi_upper: "pi < 3.14162"
proof -
  let ?x = "157081 / 300000 :: real"
  have "1 / 2 < (?x - ?x ^ 3 / 6 + ?x ^ 5 / 120 - ?x ^ 7 / 5040) - ?x ^ 9 / 362880"
    by (simp add: field_simps)
  also have "\<dots> \<le> sin ?x"
    using sin_taylor9 [of ?x] by (simp only: abs_le_iff) linarith
  finally have "sin (pi / 6) < sin ?x" by (simp add: sin_30)
  moreover have "?x \<le> pi / 2" using pi_ge_two by simp
  moreover have "- (pi / 2) \<le> ?x" using pi_ge_two by simp
  ultimately have "pi / 6 < ?x"
    using sin_mono_less_eq [of "pi / 6" ?x] pi_ge_two by simp
  then show ?thesis by simp
qed

subsection \<open>The segment area as a function of the angle\<close>






lemma half_full_value: "cylinderVolumeLiters 2 5 1 = 2500 * pi"
  by (simp add: cylinderVolumeLiters_def)

lemma half_full_rounded: "toFixed1 (Fin (2500 * pi)) = Fin 7854"
proof -
  have "\<lfloor>2500 * pi * 10 + 1 / 2\<rfloor> = 78540"
    using pi_lower pi_upper by (simp add: floor_eq_iff)
  moreover have "\<bar>2500 * pi\<bar> = 2500 * pi" by simp
  moreover have "\<not> 10 ^ 21 \<le> 2500 * pi" using pi_upper by simp
  moreover have "sgn (2500 * pi) = 1" by (simp add: sgn_if)
  ultimately show ?thesis
    by (simp del: abs_mult abs_of_nonneg)
qed

subsection \<open>The cases of the volume\<close>

text \<open>
  C2. On finite inputs \<open>D\<close>, \<open>L\<close>, \<open>h\<close> the horizontal-cylinder volume in litres is 0
  when \<open>D \<le> 0\<close> or \<open>L \<le> 0\<close>, whatever \<open>h\<close> is, and 0 when \<open>h \<le> 0\<close>; for a positive
  diameter and length it is the full volume \<open>pi (D/2)\<^sup>2 L 1000\<close> when \<open>h \<ge> D\<close> and the
  segment volume \<open>L (R\<^sup>2 acos((R - h)/R) - (R - h) sqrt(2 R h - h\<^sup>2)) 1000\<close> with
  \<open>R = D/2\<close> when \<open>0 < h < D\<close>: it is the specification's function. The cubic-metre
  function times 1000 agrees with it for a positive diameter and length. For
  \<open>D = 2\<close>, \<open>L = 5\<close>, \<open>h = 1\<close> the volume is \<open>2500 pi\<close>, within 0.05 of 7854 litres,
  and 7854.0 when rounded to one decimal.
\<close>

theorem cylinder_volume_cases:
  "(D \<le> 0 \<or> L \<le> 0 \<longrightarrow>
      horizontalCylinderVolumeLitres (JNum (Fin D)) (JNum (Fin L)) (JNum (Fin h)) = Fin 0)
   \<and> (h \<le> 0 \<longrightarrow>
      horizontalCylinderVolumeLitres (JNum (Fin D)) (JNum (Fin L)) (JNum (Fin h)) = Fin 0)
   \<and> (0 < D \<and> 0 < L \<and> h \<ge> D \<longrightarrow>
      horizontalCylinderVolumeLitres (JNum (Fin D)) (JNum (Fin L)) (JNum (Fin h))
        = Fin (pi * (D / 2)\<^sup>2 * L * 1000))
   \<and> (0 < D \<and> 0 < L \<and> 0 < h \<and> h < D \<longrightarrow>
      horizontalCylinderVolumeLitres (JNum (Fin D)) (JNum (Fin L)) (JNum (Fin h))
        = Fin (L * ((D / 2)\<^sup>2 * arccos ((D / 2 - h) / (D / 2))
                    - (D / 2 - h) * sqrt (2 * (D / 2) * h - h\<^sup>2)) * 1000))
   \<and> horizontalCylinderVolumeLitres (JNum (Fin D)) (JNum (Fin L)) (JNum (Fin h))
        = Fin (cylinderVolumeLiters D L h)
   \<and> (0 < D \<and> 0 < L \<longrightarrow>
      horizontalCylinderVolume (Fin D) (Fin L) (Fin h) * Fin 1000
        = Fin (cylinderVolumeLiters D L h))
   \<and> horizontalCylinderVolumeLitres (JNum (Fin 2)) (JNum (Fin 5)) (JNum (Fin 1)) = Fin (2500 * pi)
   \<and> \<bar>2500 * pi - 7854\<bar> < 5 / 100
   \<and> toFixed1 (horizontalCylinderVolumeLitres (JNum (Fin 2)) (JNum (Fin 5)) (JNum (Fin 1)))
        = Fin 7854"
proof (intro conjI impI)
  have "2500 * pi - 7854 < 5 / 100" using pi_upper by simp
  moreover have "- (5 / 100) < 2500 * pi - 7854" using pi_lower by simp
  ultimately show "\<bar>2500 * pi - 7854\<bar> < 5 / 100"
    unfolding abs_less_iff by linarith
  show "toFixed1 (horizontalCylinderVolumeLitres (JNum (Fin 2)) (JNum (Fin 5)) (JNum (Fin 1)))
        = Fin 7854"
    by (simp only: litres_eq_spec half_full_value half_full_rounded)
  show "horizontalCylinderVolumeLitres (JNum (Fin 2)) (JNum (Fin 5)) (JNum (Fin 1)) = Fin (2500 * pi)"
    by (simp only: litres_eq_spec half_full_value)
  show "horizontalCylinderVolumeLitres (JNum (Fin D)) (JNum (Fin L)) (JNum (Fin h))
        = Fin (cylinderVolumeLiters D L h)"
    by (rule litres_eq_spec)
next
  assume "D \<le> 0 \<or> L \<le> 0"
  then show "horizontalCylinderVolumeLitres (JNum (Fin D)) (JNum (Fin L)) (JNum (Fin h)) = Fin 0"
    unfolding litres_eq_spec by (auto simp add: cylinderVolumeLiters_def Let_def)
next
  assume "h \<le> 0"
  then show "horizontalCylinderVolumeLitres (JNum (Fin D)) (JNum (Fin L)) (JNum (Fin h)) = Fin 0"
    unfolding litres_eq_spec by (simp add: cylinderVolumeLiters_def Let_def)
next
  assume "0 < D \<and> 0 < L \<and> h \<ge> D"
  then show "horizontalCylinderVolumeLitres (JNum (Fin D)) (JNum (Fin L)) (JNum (Fin h))
        = Fin (pi * (D / 2)\<^sup>2 * L * 1000)"
    unfolding litres_eq_spec by (simp add: cylinderVolumeLiters_def Let_def)
next
  assume "0 < D \<and> 0 < L \<and> 0 < h \<and> h < D"
  then show "horizontalCylinderVolumeLitres (JNum (Fin D)) (JNum (Fin L)) (JNum (Fin h))
        = Fin (L * ((D / 2)\<^sup>2 * arccos ((D / 2 - h) / (D / 2))
                    - (D / 2 - h) * sqrt (2 * (D / 2) * h - h\<^sup>2)) * 1000)"
    unfolding litres_eq_spec by (simp add: cylinderVolumeLiters_def Let_def)
next
  assume "0 < D \<and> 0 < L"
  then show "horizontalCylinderVolume (Fin D) (Fin L) (Fin h) * Fin 1000
        = Fin (cylinderVolumeLiters D L h)"
    by (simp add: cubic_metres_value)
qed

theorem cylinder_volume_cases_witness:
  "(0::real) < 2 \<and> (0::real) < 5 \<and> (0::real) < 1 \<and> (1::real) < 2
   \<and> horizontalCylinderVolumeLitres (JNum (Fin 2)) (JNum (Fin 5)) (JNum (Fin 1))
       = Fin (5 * (pi / 2) * 1000)
   \<and> (2::real) \<ge> 2
   \<and> horizontalCylinderVolumeLitres (JNum (Fin 2)) (JNum (Fin 5)) (JNum (Fin 2))
       = Fin (pi * 5 * 1000)
   \<and> (- 1::real) \<le> 0
   \<and> horizontalCylinderVolumeLitres (JNum (Fin 2)) (JNum (Fin 5)) (JNum (Fin (- 1))) = Fin 0
   \<and> ((0::real) \<le> 0 \<or> (5::real) \<le> 0)
   \<and> horizontalCylinderVolumeLitres (JNum (Fin 0)) (JNum (Fin 5)) (JNum (Fin 1)) = Fin 0"
  using cylinder_volume_cases [of 2 5 1] cylinder_volume_cases [of 2 5 2]
    cylinder_volume_cases [of 2 5 "- 1"] cylinder_volume_cases [of 0 5 1]
  by simp

section \<open>The rectangular tank\<close>

text \<open>
  C9. The rectangular tank (width 8.9 m, length 5.15 m, height 17.9 m; in the source the
  tank named FIRE-TANK): a distance of 0 m gives the depth 17.9 m and the volume
  820446.5 litres, a distance of 17.9 m gives the depth 0 m and the volume 0 litres, in
  the current view (which returns a response whenever the date of the reading is absent
  or valid), in the history view and in the update-data handler.
\<close>

theorem fire_tank_scenarios:
  "(date_time row = None \<or> (\<exists>t. date_time row = Some (Fin t)) \<longrightarrow>
      (\<exists>r. buildTankResponseRow now (row\<lparr> tank_no := ''FIRE-TANK'', ultra_height := JNum (Fin 0) \<rparr>)
             = Inr r
           \<and> water_depth_m r = Some (Fin 17.9) \<and> raw_volume_l r = Some (Fin 820446.5))
      \<and> (\<exists>r. buildTankResponseRow now
               (row\<lparr> tank_no := ''FIRE-TANK'', ultra_height := JNum (Fin 17.9) \<rparr>) = Inr r
           \<and> water_depth_m r = Some (Fin 0) \<and> raw_volume_l r = Some (Fin 0)))
   \<and> h_water_depth_m (historyPoint (row\<lparr> tank_no := ''FIRE-TANK'', ultra_height := JNum (Fin 0) \<rparr>))
     = Some (Fin 17.9)
   \<and> water_volume_l (historyPoint (row\<lparr> tank_no := ''FIRE-TANK'', ultra_height := JNum (Fin 0) \<rparr>))
     = Some (Fin 820446.5)
   \<and> h_water_depth_m (historyPoint (row\<lparr> tank_no := ''FIRE-TANK'', ultra_height := JNum (Fin 17.9) \<rparr>))
     = Some (Fin 0)
   \<and> water_volume_l (historyPoint (row\<lparr> tank_no := ''FIRE-TANK'', ultra_height := JNum (Fin 17.9) \<rparr>))
     = Some (Fin 0)
   \<and> fst (updateData_level (js_str ''FIRE-TANK'') D L cap (Fin 0)) = Fin 820446.5
   \<and> fst (updateData_level (js_str ''FIRE-TANK'') D L cap (Fin 17.9)) = Fin 0"
proof (intro conjI impI)
  assume v: "date_time row = None \<or> (\<exists>t. date_time row = Some (Fin t))"
  then obtain u where u: "last_updated_of (date_time row) = Inr u"
    using last_updated_valid by blast
  show "\<exists>r. buildTankResponseRow now (row\<lparr> tank_no := ''FIRE-TANK'', ultra_height := JNum (Fin 0) \<rparr>)
             = Inr r
           \<and> water_depth_m r = Some (Fin 17.9) \<and> raw_volume_l r = Some (Fin 820446.5)"
    using u
    by (simp add: buildTankResponseRow_Inr Number_or_null_def fire_row_depth fire_row_volume
        clamp_def)
  show "\<exists>r. buildTankResponseRow now
               (row\<lparr> tank_no := ''FIRE-TANK'', ultra_height := JNum (Fin 17.9) \<rparr>) = Inr r
           \<and> water_depth_m r = Some (Fin 0) \<and> raw_volume_l r = Some (Fin 0)"
    using u
    by (simp add: buildTankResponseRow_Inr Number_or_null_def fire_row_depth fire_row_volume
        clamp_def)
qed (simp_all add: historyPoint_def updateData_level_def Number_or_null_def minus_jsnum_def
    Let_def)

theorem fire_tank_scenarios_witness:
  "date_time scenario_row = Some (Fin 0)
   \<and> (\<exists>r. buildTankResponseRow 60000
            (scenario_row\<lparr> tank_no := ''FIRE-TANK'', ultra_height := JNum (Fin 0) \<rparr>) = Inr r
         \<and> water_depth_m r = Some (Fin 17.9) \<and> raw_volume_l r = Some (Fin 820446.5))"
  using fire_tank_scenarios [of scenario_row 60000]
  by (simp add: scenario_row_def)

section \<open>The 30-minute rule\<close>



section \<open>A reading without a usable distance\<close>

lemma no_distance_response:
  "buildTankResponseRow 60000 (scenario_row\<lparr> ultra_height := JNull \<rparr>)
     = Inr \<lparr> last_updated = Some 0, minutes_since_last = Some (Fin 1), stale = False,
             diameter_m = Fin 2, length_m = Fin 5, capacity_l = Some (Fin 15000),
             ultra_height_m = None, water_depth_m = None, raw_volume_l = None,
             volume_l = None, fill_percentage = None, min_l = None, max_l = None,
             tank_status = ''Unknown'', tank_alert_message = ''No reading'' \<rparr>"
  by (simp add: scenario_row_def buildTankResponseRow_def row_staleness_def row_depth_def
      row_rawVolumeL_def statusFromLimits_def row_fillPct_def Number_or_null_def minus_jsnum_def
      Let_def)

text \<open>
  C6, as stated, fails: in the current view a fresh reading without a distance has a
  null depth and the status Unknown, but its alert is "No reading", not "No valid level".
\<close>

theorem no_distance_counterexample:
  "buildTankResponseRow 60000 (scenario_row\<lparr> ultra_height := JNull \<rparr>)
     = Inr \<lparr> last_updated = Some 0, minutes_since_last = Some (Fin 1), stale = False,
             diameter_m = Fin 2, length_m = Fin 5, capacity_l = Some (Fin 15000),
             ultra_height_m = None, water_depth_m = None, raw_volume_l = None,
             volume_l = None, fill_percentage = None, min_l = None, max_l = None,
             tank_status = ''Unknown'', tank_alert_message = ''No reading'' \<rparr>
   \<and> ''No reading'' \<noteq> ''No valid level''"
  using no_distance_response by simp

text \<open>
  C6, amended. In the current view a fresh reading whose distance is null has a null
  depth, null volumes, the status Unknown and the alert "No reading". In the update-data
  handler a request whose distance field is missing, or is a number that is not finite,
  is answered with the status "No Data", the alert "No valid level", the flow status
  Inactive and the level 0.
\<close>

theorem no_distance:
  "((ultra_height row = JNull \<or> ultra_height row = JUndefined)
      \<and> date_time row = Some (Fin t) \<and> now - t \<le> 30 * 60 * 1000 \<longrightarrow>
      (\<exists>r. buildTankResponseRow now row = Inr r
           \<and> water_depth_m r = None
           \<and> raw_volume_l r = None
           \<and> volume_l r = None
           \<and> fill_percentage r = None
           \<and> tank_status r = ''Unknown''
           \<and> tank_alert_message r = ''No reading''))
   \<and> ((req_ultra_height req = JUndefined \<or> (\<exists>n. req_ultra_height req = JNum n \<and> \<not> isFinite n))
      \<and> req_tank_no req = Some tn \<and> tn \<noteq> [] \<longrightarrow>
      updateData req p
        = Inr \<lparr> currentLevel = Fin 0, fillPercentage = Fin 0, flowStatus = ''Inactive'',
                ins_tank_status = ''No Data'', ins_tank_alert_message = ''No valid level'' \<rparr>)"
proof (intro conjI impI)
  assume a: "(ultra_height row = JNull \<or> ultra_height row = JUndefined)
      \<and> date_time row = Some (Fin t) \<and> now - t \<le> 30 * 60 * 1000"
  then have s: "\<not> snd (row_staleness now (date_time row))"
    using row_staleness_fresh by blast
  from a have u: "last_updated_of (date_time row) = Inr (Some t)" by simp
  from a have n: "Number_or_null (ultra_height row) = None"
    by (auto simp add: Number_or_null_def)
  show "\<exists>r. buildTankResponseRow now row = Inr r
           \<and> water_depth_m r = None
           \<and> raw_volume_l r = None
           \<and> volume_l r = None
           \<and> fill_percentage r = None
           \<and> tank_status r = ''Unknown''
           \<and> tank_alert_message r = ''No reading''"
    unfolding buildTankResponseRow_Inr [OF u] using s n
    by (simp add: row_depth_def row_rawVolumeL_def row_fillPct_def statusFromLimits_def)
next
  assume b: "(req_ultra_height req = JUndefined \<or> (\<exists>n. req_ultra_height req = JNum n \<and> \<not> isFinite n))
      \<and> req_tank_no req = Some tn \<and> tn \<noteq> []"
  then have nf: "\<not> isFinite (Number (req_ultra_height req))" by auto
  show "updateData req p
        = Inr \<lparr> currentLevel = Fin 0, fillPercentage = Fin 0, flowStatus = ''Inactive'',
                ins_tank_status = ''No Data'', ins_tank_alert_message = ''No valid level'' \<rparr>"
    using b nf
    by (simp add: updateData_def Let_def updateData_level_def updateData_status_def)
qed

theorem no_distance_witness:
  "ultra_height (scenario_row\<lparr> ultra_height := JNull \<rparr>) = JNull
   \<and> date_time (scenario_row\<lparr> ultra_height := JNull \<rparr>) = Some (Fin 0)
   \<and> (60000 - 0 \<le> (30 * 60 * 1000 :: real))
   \<and> (\<exists>r. buildTankResponseRow 60000 (scenario_row\<lparr> ultra_height := JNull \<rparr>) = Inr r
         \<and> water_depth_m r = None \<and> tank_status r = ''Unknown''
         \<and> tank_alert_message r = ''No reading'')
   \<and> req_ultra_height (scenario_request\<lparr> req_ultra_height := JUndefined \<rparr>) = JUndefined
   \<and> req_tank_no (scenario_request\<lparr> req_ultra_height := JUndefined \<rparr>)
       = Some (js_str ''FIRE-TANK'')
   \<and> js_str ''FIRE-TANK'' \<noteq> []
   \<and> updateData (scenario_request\<lparr> req_ultra_height := JUndefined \<rparr>) (Some scenario_params)
       = Inr \<lparr> currentLevel = Fin 0, fillPercentage = Fin 0, flowStatus = ''Inactive'',
               ins_tank_status = ''No Data'', ins_tank_alert_message = ''No valid level'' \<rparr>"
proof -
  let ?row = "scenario_row\<lparr> ultra_height := JNull \<rparr>"
  let ?req = "scenario_request\<lparr> req_ultra_height := JUndefined \<rparr>"
  have h1: "(ultra_height ?row = JNull \<or> ultra_height ?row = JUndefined)
      \<and> date_time ?row = Some (Fin 0) \<and> 60000 - 0 \<le> (30 * 60 * 1000 :: real)"
    by (simp add: scenario_row_def)
  have h2: "(req_ultra_height ?req = JUndefined
        \<or> (\<exists>n. req_ultra_height ?req = JNum n \<and> \<not> isFinite n))
      \<and> req_tank_no ?req = Some (js_str ''FIRE-TANK'') \<and> js_str ''FIRE-TANK'' \<noteq> []"
    by (simp add: scenario_request_def js_str_def)
  have A: "\<exists>r. buildTankResponseRow 60000 ?row = Inr r
         \<and> water_depth_m r = None \<and> tank_status r = ''Unknown''
         \<and> tank_alert_message r = ''No reading''"
    using no_distance [where row = ?row and now = 60000 and t = 0, THEN conjunct1, rule_format,
        OF h1]
    by auto
  have B: "updateData ?req (Some scenario_params)
       = Inr \<lparr> currentLevel = Fin 0, fillPercentage = Fin 0, flowStatus = ''Inactive'',
               ins_tank_status = ''No Data'', ins_tank_alert_message = ''No valid level'' \<rparr>"
    using no_distance [where req = ?req and tn = "js_str ''FIRE-TANK''"
        and p = "Some scenario_params", THEN conjunct2, rule_format, OF h2] .
  show ?thesis using h1 h2 A B by simp
qed

section \<open>The values of status and alert\<close>

text \<open>
  C7, as stated, fails: the update-data handler answers a request without a distance
  with the status "No Data", which is not one of OK, Warning, Inactive, Unknown.
\<close>

theorem status_domain_counterexample:
  "updateData \<lparr> req_tank_no = Some (js_str ''T-01''), req_ultra_height = JUndefined \<rparr> None
     = Inr \<lparr> currentLevel = Fin 0, fillPercentage = Fin 0, flowStatus = ''Inactive'',
             ins_tank_status = ''No Data'', ins_tank_alert_message = ''No valid level'' \<rparr>
   \<and> ''No Data'' \<notin> {''OK'', ''Warning'', ''Inactive'', ''Unknown''}"
  by (simp add: updateData_def Let_def updateData_level_def updateData_status_def Number_or_0_def
      js_str_def)

lemma statusFromLimits_range:
  "fst (statusFromLimits a mn mx) \<in> {''OK'', ''Warning'', ''Unknown''}
   \<and> snd (statusFromLimits a mn mx) \<in> {''Normal'', ''High level'', ''Low level'', ''No reading''}"
  by (simp add: statusFromLimits_def split: option.splits)

lemma updateData_status_range:
  "fst (snd (updateData_status u c up lo lvl)) \<in> {''OK'', ''Warning'', ''No Data''}
   \<and> snd (snd (updateData_status u c up lo lvl)) \<in> {''Normal'', ''High level'', ''Low level'', ''No valid level''}"
  by (simp add: updateData_status_def)

lemma updateData_Inr_status:
  assumes "updateData req p = Inr out"
  obtains u c up lo lvl where
    "ins_tank_status out = fst (snd (updateData_status u c up lo lvl))"
    "ins_tank_alert_message out = snd (snd (updateData_status u c up lo lvl))"
  using assms
  by (auto simp add: updateData_def Let_def split_beta split: option.splits if_splits)

lemma scenario_update:
  "updateData scenario_request (Some scenario_params)
     = Inr \<lparr> currentLevel = Fin 45835, fillPercentage = Fin 50, flowStatus = ''Normal'',
             ins_tank_status = ''Warning'', ins_tank_alert_message = ''High level'' \<rparr>"
  by (simp add: updateData_def scenario_request_def scenario_params_def trim_def is_space_def
      js_str_def Number_or_0_def updateData_level_def updateData_status_def minus_jsnum_def
      Let_def)

lemma buildTankResponseRow_status:
  assumes "buildTankResponseRow now row = Inr r"
  shows "(tank_status r, tank_alert_message r) = (''Inactive'', ''No reading in last 30 minutes'')
    \<or> (\<exists>a mn mx. (tank_status r, tank_alert_message r) = statusFromLimits a mn mx)"
proof -
  obtain u where u: "last_updated_of (date_time row) = Inr u"
    using assms
    by (cases "last_updated_of (date_time row)")
       (simp_all add: buildTankResponseRow_def Let_def split_beta)
  note eq = assms [unfolded buildTankResponseRow_Inr [OF u], simplified, symmetric]
  show ?thesis
  proof (cases "snd (row_staleness now (date_time row))")
    case True
    then show ?thesis by (simp add: eq)
  next
    case False
    then have "\<exists>a mn mx. (tank_status r, tank_alert_message r) = statusFromLimits a mn mx"
      by (subst eq, subst eq) (auto intro: exI)
    then show ?thesis by blast
  qed
qed

text \<open>
  C7, amended. In a response of the current view the status is one of OK, Warning,
  Inactive, Unknown and the alert is one of Normal, "High level", "Low level", "No
  reading in last 30 minutes", "No reading". In the update-data handler the status is one
  of OK, Warning, "No Data" and the alert is one of Normal, "High level", "Low level",
  "No valid level".
\<close>

theorem status_domain:
  "(buildTankResponseRow now row = Inr r \<longrightarrow>
      tank_status r \<in> {''OK'', ''Warning'', ''Inactive'', ''Unknown''}
      \<and> tank_alert_message r
          \<in> {''Normal'', ''High level'', ''Low level'', ''No reading in last 30 minutes'',
              ''No reading''})
   \<and> (date_time row = None \<or> (\<exists>t. date_time row = Some (Fin t)) \<longrightarrow>
        (\<exists>r'. buildTankResponseRow now row = Inr r'))
   \<and> (updateData req p = Inr out \<longrightarrow>
        ins_tank_status out \<in> {''OK'', ''Warning'', ''No Data''}
        \<and> ins_tank_alert_message out \<in> {''Normal'', ''High level'', ''Low level'', ''No valid level''})"
proof (intro conjI impI)
  assume "date_time row = None \<or> (\<exists>t. date_time row = Some (Fin t))"
  then obtain u where "last_updated_of (date_time row) = Inr u"
    using last_updated_valid by blast
  then show "\<exists>r'. buildTankResponseRow now row = Inr r'"
    by (simp add: buildTankResponseRow_Inr)
next
  assume a: "buildTankResponseRow now row = Inr r"
  then consider
    "(tank_status r, tank_alert_message r) = (''Inactive'', ''No reading in last 30 minutes'')"
    | lv mn mx where "(tank_status r, tank_alert_message r) = statusFromLimits lv mn mx"
    using buildTankResponseRow_status by blast
  then have "tank_status r \<in> {''OK'', ''Warning'', ''Inactive'', ''Unknown''}
      \<and> tank_alert_message r
          \<in> {''Normal'', ''High level'', ''Low level'', ''No reading in last 30 minutes'',
              ''No reading''}"
  proof cases
    case 1
    then show ?thesis by simp
  next
    case 2
    then have "tank_status r = fst (statusFromLimits lv mn mx)"
      "tank_alert_message r = snd (statusFromLimits lv mn mx)"
      by (simp_all flip: 2)
    then show ?thesis using statusFromLimits_range [of lv mn mx] by auto
  qed
  then show "tank_status r \<in> {''OK'', ''Warning'', ''Inactive'', ''Unknown''}"
    and "tank_alert_message r
          \<in> {''Normal'', ''High level'', ''Low level'', ''No reading in last 30 minutes'',
              ''No reading''}"
    by simp_all
next
  assume a: "updateData req p = Inr out"
  then obtain u c up lo lvl where
    st: "ins_tank_status out = fst (snd (updateData_status u c up lo lvl))" and
    al: "ins_tank_alert_message out = snd (snd (updateData_status u c up lo lvl))"
    by (rule updateData_Inr_status)
  show "ins_tank_status out \<in> {''OK'', ''Warning'', ''No Data''}"
    unfolding st using updateData_status_range [of u c up lo lvl] by blast
  show "ins_tank_alert_message out \<in> {''Normal'', ''High level'', ''Low level'', ''No valid level''}"
    unfolding al using updateData_status_range [of u c up lo lvl] by blast
qed

theorem status_domain_witness:
  "buildTankResponseRow 60000 (scenario_row\<lparr> ultra_height := JNull \<rparr>)
     = Inr \<lparr> last_updated = Some 0, minutes_since_last = Some (Fin 1), stale = False,
             diameter_m = Fin 2, length_m = Fin 5, capacity_l = Some (Fin 15000),
             ultra_height_m = None, water_depth_m = None, raw_volume_l = None,
             volume_l = None, fill_percentage = None, min_l = None, max_l = None,
             tank_status = ''Unknown'', tank_alert_message = ''No reading'' \<rparr>
   \<and> ''Unknown'' \<in> {''OK'', ''Warning'', ''Inactive'', ''Unknown''}
   \<and> updateData scenario_request (Some scenario_params)
     = Inr \<lparr> currentLevel = Fin 45835, fillPercentage = Fin 50, flowStatus = ''Normal'',
             ins_tank_status = ''Warning'', ins_tank_alert_message = ''High level'' \<rparr>
   \<and> ''Warning'' \<in> {''OK'', ''Warning'', ''No Data''}
   \<and> ''High level'' \<in> {''Normal'', ''High level'', ''Low level'', ''No valid level''}"
  using status_domain [of 60000 "scenario_row\<lparr> ultra_height := JNull \<rparr>"
      "\<lparr> last_updated = Some 0, minutes_since_last = Some (Fin 1), stale = False,
             diameter_m = Fin 2, length_m = Fin 5, capacity_l = Some (Fin 15000),
             ultra_height_m = None, water_depth_m = None, raw_volume_l = None,
             volume_l = None, fill_percentage = None, min_l = None, max_l = None,
             tank_status = ''Unknown'', tank_alert_message = ''No reading'' \<rparr>"
      scenario_request "Some scenario_params"
      "\<lparr> currentLevel = Fin 45835, fillPercentage = Fin 50, flowStatus = ''Normal'',
             ins_tank_status = ''Warning'', ins_tank_alert_message = ''High level'' \<rparr>"]
    scenario_update no_distance_response
  by simp

section \<open>The geometry functions never raise\<close>






section \<open>Depth from the sensor distance\<close>

lemma litres_depth_clamped:
  "0 < d \<Longrightarrow>
   horizontalCylinderVolumeLitres (JNum (Fin d)) L (JNum (Math_max (Fin 0) (Fin d - Fin s)))
   = horizontalCylinderVolumeLitres (JNum (Fin d)) L (JNum (Fin (clamp (d - s) 0 d)))"
  by (cases "Number L")
     (auto simp add: horizontalCylinderVolumeLitres_def Math_max_def clamp_def minus_jsnum_def Let_def)

text \<open>
  C3. For a present, finite sensor distance the depth is clamped into the range of the
  shape: \<open>clamp(17.9 - distance, 0, 17.9)\<close> for the rectangular tank and
  \<open>clamp(D - distance, 0, D)\<close> for a cylindrical tank of diameter \<open>D > 0\<close>, and it
  lies between 0 and that maximum. This is the depth of the current view and of the
  history view (which also asks for a positive length); in the update-data handler,
  which reports no depth, the level is the volume at that clamped depth.
\<close>

theorem depth_clamped:
  "(date_time row = None \<or> (\<exists>t. date_time row = Some (Fin t)) \<longrightarrow>
      (\<exists>r. buildTankResponseRow now
             (row\<lparr> tank_no := ''FIRE-TANK'', ultra_height := JNum (Fin s) \<rparr>) = Inr r
           \<and> water_depth_m r = Some (Fin (clamp (17.9 - s) 0 17.9))))
   \<and> h_water_depth_m (historyPoint (row\<lparr> tank_no := ''FIRE-TANK'', ultra_height := JNum (Fin s) \<rparr>))
     = Some (Fin (clamp (17.9 - s) 0 17.9))
   \<and> 0 \<le> clamp (17.9 - s) 0 17.9 \<and> clamp (17.9 - s) 0 17.9 \<le> 17.9
   \<and> ((date_time row = None \<or> (\<exists>t. date_time row = Some (Fin t)))
        \<and> tank_no row \<noteq> ''FIRE-TANK'' \<and> 0 < d \<longrightarrow>
        (\<exists>r. buildTankResponseRow now
               (row\<lparr> diameter_breadth := JNum (Fin d), ultra_height := JNum (Fin s) \<rparr>) = Inr r
             \<and> water_depth_m r = Some (Fin (clamp (d - s) 0 d))))
   \<and> (0 < d \<longrightarrow> 0 \<le> clamp (d - s) 0 d \<and> clamp (d - s) 0 d \<le> d)
   \<and> (tank_no row \<noteq> ''FIRE-TANK'' \<and> 0 < d \<and> 0 < l \<longrightarrow>
        h_water_depth_m (historyPoint
           (row\<lparr> diameter_breadth := JNum (Fin d), length_col := JNum (Fin l),
                 ultra_height := JNum (Fin s) \<rparr>))
          = Some (Fin (clamp (d - s) 0 d)))
   \<and> (tn \<noteq> js_str ''FIRE-TANK'' \<and> 0 < d \<and> not_nullish L \<longrightarrow>
        fst (updateData_level tn (JNum (Fin d)) L cap (Fin s))
          = horizontalCylinderVolumeLitres (JNum (Fin d)) L (JNum (Fin (clamp (d - s) 0 d))))
   \<and> fst (updateData_level (js_str ''FIRE-TANK'') D' L cap (Fin s))
        = Fin (8.9 * 5.15 * clamp (17.9 - s) 0 17.9 * 1000)"
proof (intro conjI impI)
  assume "date_time row = None \<or> (\<exists>t. date_time row = Some (Fin t))"
  then obtain u where u: "last_updated_of (date_time row) = Inr u"
    using last_updated_valid by blast
  then show "\<exists>r. buildTankResponseRow now
             (row\<lparr> tank_no := ''FIRE-TANK'', ultra_height := JNum (Fin s) \<rparr>) = Inr r
           \<and> water_depth_m r = Some (Fin (clamp (17.9 - s) 0 17.9))"
    by (simp add: buildTankResponseRow_Inr Number_or_null_def fire_row_depth)
next
  show "h_water_depth_m (historyPoint (row\<lparr> tank_no := ''FIRE-TANK'', ultra_height := JNum (Fin s) \<rparr>))
     = Some (Fin (clamp (17.9 - s) 0 17.9))"
    by (simp add: historyPoint_def Let_def Number_or_null_def clamp_def minus_jsnum_def)
  show "0 \<le> clamp (17.9 - s) 0 17.9" by (simp add: clamp_def)
  show "clamp (17.9 - s) 0 17.9 \<le> 17.9" by (simp add: clamp_def max_def min_def)
  show "fst (updateData_level (js_str ''FIRE-TANK'') D' L cap (Fin s))
        = Fin (8.9 * 5.15 * clamp (17.9 - s) 0 17.9 * 1000)"
    by (simp add: updateData_level_def Let_def clamp_def minus_jsnum_def)
next
  assume a: "(date_time row = None \<or> (\<exists>t. date_time row = Some (Fin t)))
        \<and> tank_no row \<noteq> ''FIRE-TANK'' \<and> 0 < d"
  then obtain u where u: "last_updated_of (date_time row) = Inr u"
    using last_updated_valid by blast
  then show "\<exists>r. buildTankResponseRow now
               (row\<lparr> diameter_breadth := JNum (Fin d), ultra_height := JNum (Fin s) \<rparr>) = Inr r
             \<and> water_depth_m r = Some (Fin (clamp (d - s) 0 d))"
    using a by (simp add: buildTankResponseRow_Inr Number_or_null_def row_depth_cylinder)
next
  assume a: "0 < d"
  then show "0 \<le> clamp (d - s) 0 d" by (simp add: clamp_def)
  from a show "clamp (d - s) 0 d \<le> d" by (simp add: clamp_def max_def min_def)
next
  assume a: "tank_no row \<noteq> ''FIRE-TANK'' \<and> 0 < d \<and> 0 < l"
  then show "h_water_depth_m (historyPoint
           (row\<lparr> diameter_breadth := JNum (Fin d), length_col := JNum (Fin l),
                 ultra_height := JNum (Fin s) \<rparr>))
          = Some (Fin (clamp (d - s) 0 d))"
    by (simp add: historyPoint_def Let_def Number_or_null_def clamp_def minus_jsnum_def
        Math_max_def Math_min_def max_def min_def)
next
  assume a: "tn \<noteq> js_str ''FIRE-TANK'' \<and> 0 < d \<and> not_nullish L"
  then show "fst (updateData_level tn (JNum (Fin d)) L cap (Fin s))
          = horizontalCylinderVolumeLitres (JNum (Fin d)) L (JNum (Fin (clamp (d - s) 0 d)))"
    using litres_depth_clamped [of d L s]
    by (simp add: updateData_level_def Let_def)
qed

theorem depth_clamped_witness:
  "date_time scenario_row = Some (Fin 0)
   \<and> tank_no scenario_row \<noteq> ''FIRE-TANK'' \<and> (0::real) < 2 \<and> (0::real) < 5
   \<and> (\<exists>r. buildTankResponseRow 0
        (scenario_row\<lparr> diameter_breadth := JNum (Fin 2), ultra_height := JNum (Fin (1 / 2)) \<rparr>)
          = Inr r
        \<and> water_depth_m r = Some (Fin (3 / 2)))
   \<and> (\<exists>r. buildTankResponseRow 0
        (scenario_row\<lparr> tank_no := ''FIRE-TANK'', ultra_height := JNum (Fin 20) \<rparr>) = Inr r
        \<and> water_depth_m r = Some (Fin 0))
   \<and> h_water_depth_m (historyPoint
        (scenario_row\<lparr> diameter_breadth := JNum (Fin 2), length_col := JNum (Fin 5),
           ultra_height := JNum (Fin 3) \<rparr>))
       = Some (Fin 0)
   \<and> js_str ''T-01'' \<noteq> js_str ''FIRE-TANK'' \<and> not_nullish (JNum (Fin 5))
   \<and> fst (updateData_level (js_str ''T-01'') (JNum (Fin 2)) (JNum (Fin 5)) (Fin 0) (Fin (- 1)))
       = horizontalCylinderVolumeLitres (JNum (Fin 2)) (JNum (Fin 5)) (JNum (Fin 2))"
proof -
  have d: "date_time scenario_row = None \<or> (\<exists>t. date_time scenario_row = Some (Fin t))"
    by (simp add: scenario_row_def)
  have n: "tank_no scenario_row \<noteq> ''FIRE-TANK''" by (simp add: scenario_row_def)
  have A: "\<exists>r. buildTankResponseRow 0
        (scenario_row\<lparr> diameter_breadth := JNum (Fin 2), ultra_height := JNum (Fin (1 / 2)) \<rparr>)
          = Inr r
        \<and> water_depth_m r = Some (Fin (3 / 2))"
    using depth_clamped [where now = 0 and row = scenario_row and s = "1 / 2" and d = 2] d n
    by (simp add: clamp_def)
  have B: "\<exists>r. buildTankResponseRow 0
        (scenario_row\<lparr> tank_no := ''FIRE-TANK'', ultra_height := JNum (Fin 20) \<rparr>) = Inr r
        \<and> water_depth_m r = Some (Fin 0)"
    using depth_clamped [where now = 0 and row = scenario_row and s = 20] d
    by (simp add: clamp_def)
  have C: "h_water_depth_m (historyPoint
        (scenario_row\<lparr> diameter_breadth := JNum (Fin 2), length_col := JNum (Fin 5),
           ultra_height := JNum (Fin 3) \<rparr>))
       = Some (Fin 0)"
    using depth_clamped [where row = scenario_row and s = 3 and d = 2 and l = 5] n
    by (simp add: clamp_def)
  have t: "js_str ''T-01'' \<noteq> js_str ''FIRE-TANK''" by (simp add: js_str_def)
  have E: "fst (updateData_level (js_str ''T-01'') (JNum (Fin 2)) (JNum (Fin 5)) (Fin 0) (Fin (- 1)))
       = horizontalCylinderVolumeLitres (JNum (Fin 2)) (JNum (Fin 5)) (JNum (Fin 2))"
    using depth_clamped [where tn = "js_str ''T-01''" and s = "- 1" and d = 2
        and L = "JNum (Fin 5)" and cap = "Fin 0"] t
    by (simp add: clamp_def)
  show ?thesis using A B C E t n by (simp add: scenario_row_def)
qed

section \<open>Monotonicity in the depth, in binary64 arithmetic\<close>

subsection \<open>Rounding to the nearest double\<close>

lemma pow2_powr: "pow2 e = 2 powr (of_int e)"
proof (cases "0 \<le> e")
  case True
  then have "real_of_int e = real (nat e)" by simp
  then have "2 powr (real_of_int e) = (2::real) powr (real (nat e))" by (simp only:)
  also have "\<dots> = 2 ^ nat e" by (rule powr_realpow) simp
  finally show ?thesis using True by (simp only: pow2_def if_True)
next
  case False
  then have "real_of_int e = - real (nat (- e))" by simp
  then have "2 powr (real_of_int e) = (2::real) powr (- real (nat (- e)))" by (simp only:)
  also have "\<dots> = 1 / 2 powr real (nat (- e))" by (rule powr_minus_divide)
  also have "2 powr real (nat (- e)) = (2::real) ^ nat (- e)" by (rule powr_realpow) simp
  finally show ?thesis using False by (simp only: pow2_def if_False)
qed

lemma pow2_pos: "0 < pow2 e"
  by (simp add: pow2_powr)

lemma pow2_add: "pow2 (a + b) = pow2 a * pow2 b"
  by (simp add: pow2_powr powr_add)

lemma round_even_close: "\<bar>of_int (round_even y) - y\<bar> \<le> 1 / 2"
  unfolding round_even_def Let_def by (auto simp: abs_le_iff; linarith)

lemma b64_binade:
  assumes "pow2 k \<le> \<bar>x\<bar>" "\<bar>x\<bar> < pow2 (k + 1)"
  shows "b64 x = of_int (round_even (x / pow2 (k - 52))) * pow2 (k - 52)"
proof -
  have pos: "0 < \<bar>x\<bar>" using assms(1) pow2_pos [of k] by linarith
  have "\<lfloor>log 2 \<bar>x\<bar>\<rfloor> = k"
    using assms pos by (simp add: floor_log_eq_powr_iff pow2_powr)
  then show ?thesis using pos by (simp add: b64_def Let_def)
qed

lemma b64_rel:
  "\<bar>b64 x - x\<bar> \<le> \<bar>x\<bar> / 2 ^ 53"
proof (cases "x = 0")
  case True then show ?thesis by (simp add: b64_def)
next
  case False
  define k where "k = \<lfloor>log 2 \<bar>x\<bar>\<rfloor>"
  have pos: "0 < \<bar>x\<bar>" using False by simp
  have kb: "pow2 k \<le> \<bar>x\<bar>" "\<bar>x\<bar> < pow2 (k + 1)"
    using pos floor_log_eq_powr_iff [of "\<bar>x\<bar>" 2 k] by (simp_all add: k_def pow2_powr)
  define e where "e = k - 52"
  define y where "y = x / pow2 e"
  have b: "b64 x = of_int (round_even y) * pow2 e"
    using b64_binade [OF kb] by (simp add: e_def y_def)
  have x: "x = y * pow2 e" using pow2_pos [of e] by (simp add: y_def)
  have "b64 x - x = of_int (round_even y) * pow2 e - y * pow2 e"
    unfolding b using x by simp
  then have "b64 x - x = (of_int (round_even y) - y) * pow2 e"
    by (simp add: algebra_simps)
  then have "\<bar>b64 x - x\<bar> = \<bar>of_int (round_even y) - y\<bar> * pow2 e"
    using pow2_pos [of e] by (simp add: abs_mult)
  also have "\<dots> \<le> 1 / 2 * pow2 e"
    using round_even_close [of y] pow2_pos [of e] by (intro mult_right_mono) auto
  also have "\<dots> = pow2 k / 2 ^ 53"
  proof -
    have "pow2 k = pow2 e * pow2 52" unfolding e_def by (simp flip: pow2_add)
    moreover have "pow2 52 = 2 ^ 52" by (simp add: pow2_def)
    ultimately show ?thesis by simp
  qed
  also have "\<dots> \<le> \<bar>x\<bar> / 2 ^ 53"
    using kb(1) by (simp add: divide_right_mono)
  finally show ?thesis .
qed

lemma b64_neg: "x < 0 \<Longrightarrow> b64 x < 0"
proof -
  assume a: "x < 0"
  have "b64 x - x \<le> \<bar>b64 x - x\<bar>" by simp
  also have "\<dots> \<le> \<bar>x\<bar> / 2 ^ 53" by (rule b64_rel)
  finally have "b64 x - x \<le> \<bar>x\<bar> / 2 ^ 53" .
  then have "b64 x \<le> x + (- x) / 2 ^ 53" using a by simp
  also have "\<dots> = x * (1 - 1 / 2 ^ 53)" by (simp add: algebra_simps)
  also have "\<dots> < 0" using a by (simp add: mult_neg_pos)
  finally show ?thesis .
qed

lemma b64_upper: "0 \<le> x \<Longrightarrow> b64 x \<le> x * (1 + 1 / 2 ^ 53)"
proof -
  assume a: "0 \<le> x"
  have "b64 x - x \<le> \<bar>b64 x - x\<bar>" by simp
  also have "\<dots> \<le> \<bar>x\<bar> / 2 ^ 53" by (rule b64_rel)
  finally have "b64 x \<le> x + x / 2 ^ 53" using a by simp
  then show ?thesis by (simp add: algebra_simps)
qed

lemma b64_lower: "0 \<le> x \<Longrightarrow> x * (1 - 1 / 2 ^ 53) \<le> b64 x"
proof -
  assume a: "0 \<le> x"
  have "x - b64 x \<le> \<bar>b64 x - x\<bar>" by simp
  also have "\<dots> \<le> \<bar>x\<bar> / 2 ^ 53" by (rule b64_rel)
  finally have "x - x / 2 ^ 53 \<le> b64 x" using a by simp
  then show ?thesis by (simp add: algebra_simps)
qed

subsection \<open>The doubles of one evaluation\<close>

text \<open>
  Diameter 3, length 5, depth \<open>1 / 2 ^ 30\<close>. The radius, its square, the radius minus the depth
  and the radicand are doubles. The quotient \<open>(R - h) / R\<close> is not: it is rounded up, by
  a third of a unit in the last place.
\<close>

lemma b64_three_halves: "b64 (3 / 2) = 3 / 2"
  using b64_binade [of 0 "3 / 2"] by (simp add: pow2_def round_even_def)

lemma b64_nine_quarters: "b64 (9 / 4) = 9 / 4"
  using b64_binade [of 1 "9 / 4"] by (simp add: pow2_def round_even_def)

lemma b64_three: "b64 3 = 3"
  using b64_binade [of 1 3] by (simp add: pow2_def round_even_def)

lemma b64_radius_minus_depth: "b64 (3 / 2 - 1 / 2 ^ 30) = 3 / 2 - 1 / 2 ^ 30"
  using b64_binade [of 0 "3 / 2 - 1 / 2 ^ 30"] by (simp add: pow2_def round_even_def)

lemma b64_quotient: "b64 ((3 / 2 - 1 / 2 ^ 30) / (3 / 2)) = (2 ^ 53 - 5592405) / 2 ^ 53"
  using b64_binade [of "- 1" "(3 / 2 - 1 / 2 ^ 30) / (3 / 2)"]
  by (simp add: pow2_def round_even_def)

lemma b64_three_depth: "b64 (3 * (1 / 2 ^ 30)) = 3 / 2 ^ 30"
  using b64_binade [of "- 29" "3 * (1 / 2 ^ 30)"] by (simp add: pow2_def round_even_def)

lemma b64_depth_squared: "b64 (1 / 2 ^ 30 * (1 / 2 ^ 30)) = 1 / 2 ^ 60"
  using b64_binade [of "- 60" "1 / 2 ^ 30 * (1 / 2 ^ 30)"] by (simp add: pow2_def round_even_def)

lemma b64_radicand: "b64 (3 / 2 ^ 30 - 1 / 2 ^ 60) = 3 / 2 ^ 30 - 1 / 2 ^ 60"
  using b64_binade [of "- 29" "3 / 2 ^ 30 - 1 / 2 ^ 60"] by (simp add: pow2_def round_even_def)

subsection \<open>The two terms of the area\<close>

text \<open>
  The angle of the rounded quotient is smaller than the angle of the exact one by about
  \<open>1 / 10 ^ 12\<close>, forty times the area of the segment. \<open>term1\<close> is therefore below \<open>term2\<close>,
  whatever an accurate \<open>Math.acos\<close> and the remaining roundings do.
\<close>

lemma sum_lessThan_4:
  "(\<Sum>m<(4::nat). f m) = (f 0 + f 1 + f 2 + f 3 :: real)"
  by (simp add: eval_nat_numeral)

lemma cos_taylor4:
  assumes "0 < (x::real)"
  shows "cos x \<le> 1 - x\<^sup>2 / 2 + x ^ 4 / 24"
proof -
  obtain t where
    e: "cos x = (\<Sum>m<4. cos_coeff m * x ^ m) + (cos (t + 1 / 2 * real 4 * pi) / fact 4) * x ^ 4"
    using Maclaurin_cos_expansion2 [of x 4] assms by auto
  have c: "cos_coeff 0 = 1" "cos_coeff 1 = 0" "cos_coeff 2 = - 1 / 2" "cos_coeff 3 = 0"
    by (simp_all add: cos_coeff_def fact_numeral)
  have s: "(\<Sum>m<4. cos_coeff m * x ^ m) = 1 - x\<^sup>2 / 2"
    unfolding sum_lessThan_4 c by simp
  have f: "(fact 4 :: real) = 24"
    by (simp add: fact_numeral)
  have "cos (t + 1 / 2 * real 4 * pi) * (x ^ 4 / 24) \<le> 1 * (x ^ 4 / 24)"
    by (intro mult_right_mono) auto
  then show ?thesis unfolding e s f by simp
qed

lemma arccos_upper:
  "arccos ((2 ^ 53 - 5592405) / 2 ^ 53) \<le> 352386628427 / 10 ^ 16"
proof -
  let ?d = "(2 ^ 53 - 5592405) / 2 ^ 53 :: real"
  let ?U = "352386628427 / 10 ^ 16 :: real"
  have d: "- 1 \<le> ?d" "?d \<le> 1" by simp_all
  have "cos ?U \<le> 1 - ?U\<^sup>2 / 2 + ?U ^ 4 / 24"
    by (rule cos_taylor4) simp
  also have "\<dots> \<le> ?d" by (simp add: power_divide)
  finally have "cos ?U \<le> cos (arccos ?d)" using d by simp
  moreover have "0 \<le> ?U" "?U \<le> pi" using pi_ge_two by simp_all
  moreover have "0 \<le> arccos ?d" "arccos ?d \<le> pi"
    using d by (simp_all add: arccos_lbound arccos_ubound)
  ultimately show ?thesis
    using cos_mono_le_eq [of ?U "arccos ?d"] by simp
qed

lemma sqrt_lower:
  "528579958280 / 10 ^ 16 \<le> sqrt (3 / 2 ^ 30 - 1 / 2 ^ 60)"
  by (rule real_le_rsqrt) (simp add: power_divide)

lemma negative_volume_b64:
  assumes ac: "\<And>x. - 1 \<le> x \<Longrightarrow> x \<le> 1 \<Longrightarrow> \<bar>ac x - arccos x\<bar> \<le> arccos x / 2 ^ 40"
  shows "horizontalCylinderVolume_b64 ac 3 5 (1 / 2 ^ 30) < 0"
proof -
  let ?d = "(2 ^ 53 - 5592405) / 2 ^ 53 :: real"
  let ?U = "352386628427 / 10 ^ 16 :: real"
  let ?S = "528579958280 / 10 ^ 16 :: real"
  let ?Rh = "3 / 2 - 1 / 2 ^ 30 :: real"
  let ?q = "3 / 2 ^ 30 - 1 / 2 ^ 60 :: real"
  define a where "a = ac ?d"
  define s where "s = b64 (sqrt ?q)"
  define term1 where "term1 = b64 (9 / 4 * a)"
  define term2 where "term2 = b64 (?Rh * s)"
  have d: "- 1 \<le> ?d" "?d \<le> 1" by simp_all
  have t0: "0 \<le> arccos ?d" using d by (simp add: arccos_lbound)
  have "\<bar>a - arccos ?d\<bar> \<le> arccos ?d / 2 ^ 40"
    unfolding a_def by (rule ac) simp_all
  then have "a - arccos ?d \<le> arccos ?d / 2 ^ 40" "arccos ?d - a \<le> arccos ?d / 2 ^ 40"
    unfolding abs_le_iff by linarith+
  then have a_bounds: "arccos ?d * (1 - 1 / 2 ^ 40) \<le> a" "a \<le> arccos ?d * (1 + 1 / 2 ^ 40)"
    by (simp_all add: algebra_simps)
  have a0: "0 \<le> a"
  proof -
    have "0 \<le> arccos ?d * (1 - 1 / 2 ^ 40)" using t0 by simp
    then show ?thesis using a_bounds(1) by linarith
  qed
  have "a \<le> ?U * (1 + 1 / 2 ^ 40)"
  proof -
    have "arccos ?d * (1 + 1 / 2 ^ 40) \<le> ?U * (1 + 1 / 2 ^ 40)"
      by (rule mult_right_mono [OF arccos_upper]) simp
    then show ?thesis using a_bounds(2) by linarith
  qed
  then have "9 / 4 * a \<le> 9 / 4 * (?U * (1 + 1 / 2 ^ 40))" by simp
  moreover have "term1 \<le> 9 / 4 * a * (1 + 1 / 2 ^ 53)"
    unfolding term1_def using a0 by (intro b64_upper) simp
  ultimately have t1: "term1 \<le> 9 / 4 * (?U * (1 + 1 / 2 ^ 40)) * (1 + 1 / 2 ^ 53)"
  proof -
    assume A: "9 / 4 * a \<le> 9 / 4 * (?U * (1 + 1 / 2 ^ 40))"
      and B: "term1 \<le> 9 / 4 * a * (1 + 1 / 2 ^ 53)"
    have "9 / 4 * a * (1 + 1 / 2 ^ 53) \<le> 9 / 4 * (?U * (1 + 1 / 2 ^ 40)) * (1 + 1 / 2 ^ 53)"
      by (rule mult_right_mono [OF A]) simp
    with B show ?thesis by linarith
  qed
  have q0: "0 \<le> sqrt ?q" by simp
  have "sqrt ?q * (1 - 1 / 2 ^ 53) \<le> s"
    unfolding s_def by (rule b64_lower [OF q0])
  moreover have "?S * (1 - 1 / 2 ^ 53) \<le> sqrt ?q * (1 - 1 / 2 ^ 53)"
    by (rule mult_right_mono [OF sqrt_lower]) simp
  ultimately have s1: "?S * (1 - 1 / 2 ^ 53) \<le> s" by linarith
  then have s0: "0 \<le> s" by simp
  have "?Rh * (?S * (1 - 1 / 2 ^ 53)) \<le> ?Rh * s"
    by (rule mult_left_mono [OF s1]) simp
  moreover have "?Rh * s * (1 - 1 / 2 ^ 53) \<le> term2"
    unfolding term2_def using s0 by (intro b64_lower) simp
  ultimately have t2: "?Rh * (?S * (1 - 1 / 2 ^ 53)) * (1 - 1 / 2 ^ 53) \<le> term2"
  proof -
    assume A: "?Rh * (?S * (1 - 1 / 2 ^ 53)) \<le> ?Rh * s"
      and B: "?Rh * s * (1 - 1 / 2 ^ 53) \<le> term2"
    have "?Rh * (?S * (1 - 1 / 2 ^ 53)) * (1 - 1 / 2 ^ 53) \<le> ?Rh * s * (1 - 1 / 2 ^ 53)"
      by (rule mult_right_mono [OF A]) simp
    with B show ?thesis by linarith
  qed
  have gap: "9 / 4 * (?U * (1 + 1 / 2 ^ 40)) * (1 + 1 / 2 ^ 53)
      < ?Rh * (?S * (1 - 1 / 2 ^ 53)) * (1 - 1 / 2 ^ 53)"
    by simp
  have "term1 - term2 < 0" using t1 t2 gap by linarith
  then have "b64 (term1 - term2) < 0" by (rule b64_neg)
  then have "5 * b64 (term1 - term2) < 0" by simp
  then have neg: "b64 (5 * b64 (term1 - term2)) < 0" by (rule b64_neg)
  have RR: "b64 (3 / 2 * (3 / 2)) = 9 / 4" using b64_nine_quarters by simp
  have twoR: "b64 (2 * (3 / 2)) = 3" using b64_three by simp
  have "horizontalCylinderVolume_b64 ac 3 5 (1 / 2 ^ 30) = b64 (5 * b64 (term1 - term2))"
    unfolding horizontalCylinderVolume_b64_def Let_def term1_def term2_def a_def s_def
    by (simp only: b64_three_halves RR twoR b64_radius_minus_depth
        b64_quotient b64_three_depth b64_depth_squared b64_radicand) simp
  then show ?thesis using neg by simp
qed

text \<open>
  C8 fails in the code's arithmetic. With any \<open>Math.acos\<close> that is accurate to a relative
  error of \<open>1 / 2 ^ 40\<close>, the cubic-metre function for the diameter 3 and the length 5 is
  negative at the depth \<open>1 / 2 ^ 30\<close>, below its value 0 at the depth 0: the function is not
  monotone in the depth. (In exact arithmetic it is, by \<open>spec_volume_mono\<close>.)
\<close>

theorem cylinder_volume_not_monotone:
  "(\<forall>x. - 1 \<le> x \<and> x \<le> 1 \<longrightarrow> \<bar>acos_impl x - arccos x\<bar> \<le> arccos x / 2 ^ 40) \<longrightarrow>
     (0 :: real) < 1 / 2 ^ 30
     \<and> horizontalCylinderVolume_b64 acos_impl 3 5 0 = 0
     \<and> horizontalCylinderVolume_b64 acos_impl 3 5 (1 / 2 ^ 30) < 0
     \<and> \<not> horizontalCylinderVolume_b64 acos_impl 3 5 0
           \<le> horizontalCylinderVolume_b64 acos_impl 3 5 (1 / 2 ^ 30)"
proof
  assume a: "\<forall>x. - 1 \<le> x \<and> x \<le> 1 \<longrightarrow> \<bar>acos_impl x - arccos x\<bar> \<le> arccos x / 2 ^ 40"
  have z: "horizontalCylinderVolume_b64 acos_impl 3 5 0 = 0"
    by (simp add: horizontalCylinderVolume_b64_def)
  have n: "horizontalCylinderVolume_b64 acos_impl 3 5 (1 / 2 ^ 30) < 0"
    by (rule negative_volume_b64) (use a in blast)
  show "(0 :: real) < 1 / 2 ^ 30
     \<and> horizontalCylinderVolume_b64 acos_impl 3 5 0 = 0
     \<and> horizontalCylinderVolume_b64 acos_impl 3 5 (1 / 2 ^ 30) < 0
     \<and> \<not> horizontalCylinderVolume_b64 acos_impl 3 5 0
           \<le> horizontalCylinderVolume_b64 acos_impl 3 5 (1 / 2 ^ 30)"
    using z n by simp
qed

theorem cylinder_volume_not_monotone_witness:
  "horizontalCylinderVolume_b64 arccos 3 5 0 = 0
   \<and> horizontalCylinderVolume_b64 arccos 3 5 (1 / 2 ^ 30) < 0"
proof -
  have h: "\<forall>x. - 1 \<le> x \<and> x \<le> 1 \<longrightarrow> \<bar>arccos x - arccos x\<bar> \<le> arccos x / 2 ^ 40"
    by (simp add: arccos_lbound)
  then show ?thesis
    using cylinder_volume_not_monotone [of arccos] by blast
qed

end
